theory Spec2Isabelle
  imports Complex_Main
begin

section \<open>Numbers of the host language\<close>

text \<open>
  The scoring engine is the class \<open>AdvancedScoringSystem\<close>; the flag handler is the
  \<open>POST\<close> function of the flag route. Both are TypeScript running on a hosted store.

  Every number of the language is a double. A finite double is modelled by the real it
  stands for, and \<open>to_double\<close> rounds a real to the nearest double: the mantissa has 53
  bits, a tie goes to the even mantissa. The range of the exponent is left open, so
  nothing overflows to \<open>Infinity\<close> or becomes subnormal; the points, counts and
  milliseconds of the engine stay far from both ends. Each arithmetic operation of the
  code is the exact operation followed by \<open>to_double\<close>, and a decimal literal such as
  \<open>0.3\<close> is \<open>lit 0.3\<close>, the double nearest to three tenths.
\<close>

definition round_even :: "real \<Rightarrow> int" where
  "round_even r =
     (if r - of_int \<lfloor>r\<rfloor> < 1 / 2 then \<lfloor>r\<rfloor>
      else if 1 / 2 < r - of_int \<lfloor>r\<rfloor> then \<lfloor>r\<rfloor> + 1
      else if even \<lfloor>r\<rfloor> then \<lfloor>r\<rfloor> else \<lfloor>r\<rfloor> + 1)"

definition p2 :: "int \<Rightarrow> real" where
  "p2 j = 2 powr of_int j"

definition expo :: "real \<Rightarrow> int" where
  "expo x = \<lfloor>log 2 \<bar>x\<bar>\<rfloor>"

text \<open>The distance between neighbouring doubles at \<open>x\<close>.\<close>

definition ulp :: "real \<Rightarrow> real" where
  "ulp x = p2 (expo x - 52)"

definition to_double :: "real \<Rightarrow> real" where
  "to_double x = (if x = 0 then 0 else of_int (round_even (x / ulp x)) * ulp x)"

definition lit :: "real \<Rightarrow> real" where
  "lit x = to_double x"

definition js_times :: "real \<Rightarrow> real \<Rightarrow> real" where
  "js_times a b = to_double (a * b)"

definition js_divide :: "real \<Rightarrow> real \<Rightarrow> real" where
  "js_divide a b = to_double (a / b)"

definition js_minus :: "real \<Rightarrow> real \<Rightarrow> real" where
  "js_minus a b = to_double (a - b)"

definition js_plus :: "real \<Rightarrow> real \<Rightarrow> real" where
  "js_plus a b = to_double (a + b)"

text \<open>
  A value that may fail to be a number: \<open>NaN\<close>, which every operation passes on and
  which no comparison accepts. \<open>Math.round\<close> gives the nearest integer, a half going up.
\<close>

datatype number = NaN | Num real

definition num_times :: "number \<Rightarrow> number \<Rightarrow> number" where
  "num_times a b =
     (case a of
        NaN \<Rightarrow> NaN
      | Num x \<Rightarrow> (case b of NaN \<Rightarrow> NaN | Num y \<Rightarrow> Num (js_times x y)))"

definition num_plus :: "number \<Rightarrow> number \<Rightarrow> number" where
  "num_plus a b =
     (case a of
        NaN \<Rightarrow> NaN
      | Num x \<Rightarrow> (case b of NaN \<Rightarrow> NaN | Num y \<Rightarrow> Num (js_plus x y)))"

definition Math_round :: "number \<Rightarrow> number" where
  "Math_round a = (case a of NaN \<Rightarrow> NaN | Num x \<Rightarrow> Num (of_int \<lfloor>x + 1 / 2\<rfloor>))"

definition Math_max :: "number \<Rightarrow> number \<Rightarrow> number" where
  "Math_max a b =
     (case a of
        NaN \<Rightarrow> NaN
      | Num x \<Rightarrow> (case b of NaN \<Rightarrow> NaN | Num y \<Rightarrow> Num (max x y)))"

text \<open>\<open>a <= b\<close> on values that may be \<open>NaN\<close>.\<close>

definition num_le :: "number \<Rightarrow> number \<Rightarrow> bool" where
  "num_le a b =
     (case a of
        NaN \<Rightarrow> False
      | Num x \<Rightarrow> (case b of NaN \<Rightarrow> False | Num y \<Rightarrow> x \<le> y))"

text \<open>
  Reading \<open>table[key]\<close> from an object literal: the entry when the literal lists the
  key, otherwise what every object inherits under that name (a function, or the
  prototype itself for \<open>__proto__\<close>), and \<open>undefined\<close> for any other key.
\<close>

definition Object_prototype :: "string list" where
  "Object_prototype =
     [''constructor'', ''__defineGetter__'', ''__defineSetter__'', ''hasOwnProperty'',
      ''__lookupGetter__'', ''__lookupSetter__'', ''isPrototypeOf'',
      ''propertyIsEnumerable'', ''toString'', ''valueOf'', ''__proto__'',
      ''toLocaleString'']"

datatype 'a property = Own 'a | Inherited | Undefined

definition get_property :: "(string \<times> 'a) list \<Rightarrow> string \<Rightarrow> 'a property" where
  "get_property table key =
     (case map_of table key of
        Some v \<Rightarrow> Own v
      | None \<Rightarrow> if key \<in> set Object_prototype then Inherited else Undefined)"

text \<open>
  A function of the code either returns a value or throws (an \<open>async\<close> function resolves or
  rejects). \<open>await\<close> passes a thrown exception on; \<open>try_catch\<close> is
  \<^verbatim>\<open>try { body } catch (error) { return fallback }\<close>.
\<close>

datatype 'a outcome = Raised | Returned 'a

definition await :: "'a outcome \<Rightarrow> ('a \<Rightarrow> 'b outcome) \<Rightarrow> 'b outcome" where
  "await m f = (case m of Raised \<Rightarrow> Raised | Returned v \<Rightarrow> f v)"

definition try_catch :: "'a outcome \<Rightarrow> 'a \<Rightarrow> 'a outcome" where
  "try_catch body fallback = (case body of Raised \<Rightarrow> Returned fallback | Returned v \<Rightarrow> Returned v)"

text \<open>
  A timestamp string is represented by what \<open>new Date(s).getTime()\<close> makes of it:
  milliseconds since the epoch, or \<open>Invalid_Date\<close> (the code then computes with NaN,
  and every comparison with NaN is false).
\<close>

datatype timestamp = Invalid_Date | Time int

section \<open>The store\<close>

text \<open>
  Rows as the client hands them to the code. An integer column arrives as a number that
  holds the integer; a missing value is \<open>null\<close>, here \<open>None\<close>.
\<close>

record challenge_row =
  ch_id :: string
  points :: "int option"
  difficulty :: "string option"
  category :: "string option"
  daily :: "bool option"
  created_at :: "timestamp option"

record solve_row =
  user_id :: string
  team_name :: string
  challenge_id :: string
  solve_points :: int

record settings_row =
  dynamic_scoring :: "bool option"
  first_blood_bonus :: "int option"
  team_size_penalty :: "bool option"
  speed_bonus :: "bool option"

text \<open>
  The handle \<open>this.supabase\<close>, as the engine uses it: one field per query the engine
  sends. A query throws, or returns its \<open>data\<close> (or \<open>count\<close>), which is \<open>null\<close> (here
  \<open>None\<close>) when the store reports an error or \<open>.single()\<close> finds no row.
\<close>

record supabase =
  challenges_single :: "string \<Rightarrow> challenge_row option outcome"
  teams_count :: "nat option outcome"
  solves_count :: "string \<Rightarrow> nat option outcome"
  solves_first :: "string \<Rightarrow> solve_row option outcome"
  settings_latest :: "settings_row option outcome"

section \<open>The scoring engine\<close>

subsection \<open>calculateDynamicPoints\<close>

definition difficultyMultiplier :: "(string \<times> real) list" where
  "difficultyMultiplier =
     [(''easy'', lit 1.0), (''medium'', lit 1.3), (''hard'', lit 1.6), (''expert'', lit 2.0)]"

definition categoryMultiplier :: "(string \<times> real) list" where
  "categoryMultiplier =
     [(''crypto'', lit 1.2), (''pwn'', lit 1.3), (''reverse'', lit 1.2), (''web'', lit 1.0),
      (''forensics'', lit 1.1), (''misc'', lit 1.0)]"

text \<open>
  \<open>table[key] || dflt\<close>: a missing entry and a zero entry both give the default. An
  inherited property is neither missing nor zero, so the default is not taken, and the
  product it then enters is \<open>NaN\<close>. A \<open>null\<close> key reads the property \<open>null\<close>, which no
  table and no prototype has.
\<close>

definition lookup_or :: "(string \<times> real) list \<Rightarrow> string option \<Rightarrow> real \<Rightarrow> number" where
  "lookup_or table k dflt =
     (case k of
        None \<Rightarrow> Num dflt
      | Some key \<Rightarrow>
          (case get_property table key of
             Own v \<Rightarrow> if v = 0 then Num dflt else Num v
           | Inherited \<Rightarrow> NaN
           | Undefined \<Rightarrow> Num dflt))"

text \<open>\<open>challenge.points || 100\<close>.\<close>

definition points_or_100 :: "int option \<Rightarrow> real" where
  "points_or_100 p = (case p of None \<Rightarrow> 100 | Some v \<Rightarrow> if v = 0 then 100 else of_int v)"

text \<open>The chain of comparisons on the solve rate.\<close>

definition rarity :: "real \<Rightarrow> real" where
  "rarity solveRate =
     (if solveRate = 0 then lit 2.0
      else if solveRate < lit 0.1 then lit 1.8
      else if solveRate < lit 0.25 then lit 1.5
      else if solveRate < lit 0.5 then lit 1.2
      else if solveRate < lit 0.8 then lit 1.0
      else lit 0.7)"

definition calculateDynamicPoints_try :: "supabase \<Rightarrow> string \<Rightarrow> number outcome" where
  "calculateDynamicPoints_try sb challengeId =
     await (challenges_single sb challengeId) (\<lambda>challenge.
       case challenge of
         None \<Rightarrow> Returned (Num 0)
       | Some ch \<Rightarrow>
           let basePoints = points_or_100 (points ch) in
           await (teams_count sb) (\<lambda>totalTeams.
           await (solves_count sb challengeId) (\<lambda>solveCount.
             case totalTeams of
               None \<Rightarrow> Returned (Num basePoints)
             | Some teams \<Rightarrow>
                 if teams = 0 then Returned (Num basePoints)
                 else
                   let solveRate =
                         js_divide (real (case solveCount of None \<Rightarrow> 0 | Some n \<Rightarrow> n))
                           (real teams);
                       multiplier = rarity solveRate;
                       diffMult = lookup_or difficultyMultiplier (difficulty ch) (lit 1.0);
                       catMult = lookup_or categoryMultiplier (category ch) (lit 1.0);
                       dailyMultiplier = (if daily ch = Some True then lit 1.5 else lit 1.0);
                       finalPoints =
                         Math_round
                           (num_times
                              (num_times
                                 (num_times (num_times (Num basePoints) (Num multiplier)) diffMult)
                                 catMult)
                              (Num dailyMultiplier))
                   in Returned
                        (Math_max finalPoints
                           (Math_round (num_times (Num basePoints) (Num (lit 0.3))))))))"

definition calculateDynamicPoints :: "supabase \<Rightarrow> string \<Rightarrow> number outcome" where
  "calculateDynamicPoints sb challengeId =
     try_catch (calculateDynamicPoints_try sb challengeId) (Num 100)"

subsection \<open>calculateFirstBloodBonus\<close>

record firstBlood =
  fb_points :: real
  fb_isFirstBlood :: bool

text \<open>\<open>settings?.first_blood_bonus || 50\<close>.\<close>

definition bonus_or_50 :: "settings_row option \<Rightarrow> real" where
  "bonus_or_50 settings =
     (case settings of
        None \<Rightarrow> 50
      | Some s \<Rightarrow>
          (case first_blood_bonus s of None \<Rightarrow> 50 | Some b \<Rightarrow> if b = 0 then 50 else of_int b))"

definition calculateFirstBloodBonus_try :: "supabase \<Rightarrow> string \<Rightarrow> string \<Rightarrow> firstBlood outcome" where
  "calculateFirstBloodBonus_try sb challengeId teamId =
     await (solves_first sb challengeId) (\<lambda>firstSolve.
       let isFirstBlood = (firstSolve = None) in
       if isFirstBlood then
         await (settings_latest sb) (\<lambda>settings.
           Returned \<lparr>fb_points = bonus_or_50 settings, fb_isFirstBlood = True\<rparr>)
       else Returned \<lparr>fb_points = 0, fb_isFirstBlood = False\<rparr>)"

definition calculateFirstBloodBonus :: "supabase \<Rightarrow> string \<Rightarrow> string \<Rightarrow> firstBlood outcome" where
  "calculateFirstBloodBonus sb challengeId teamId =
     try_catch (calculateFirstBloodBonus_try sb challengeId teamId)
       \<lparr>fb_points = 0, fb_isFirstBlood = False\<rparr>"

subsection \<open>calculateTeamSizeModifier\<close>

text \<open>
  With \<open>maxTeamSize = 0\<close> and a team of two or more, the quotient of the code is
  \<open>Infinity\<close> and \<open>Math.max(0.7, -Infinity)\<close> is \<open>0.7\<close>; HOL's \<open>x / 0 = 0\<close> would say
  otherwise, so the case is written out.
\<close>

definition calculateTeamSizeModifier :: "int \<Rightarrow> int \<Rightarrow> real" where
  "calculateTeamSizeModifier teamSize maxTeamSize =
     (if teamSize \<le> 1 then lit 1.0
      else if maxTeamSize = 0 then lit 0.7
      else
        let sizeRatio = js_divide (of_int teamSize) (of_int maxTeamSize)
        in max (lit 0.7) (js_minus (lit 1.0) (js_times (js_minus sizeRatio 1) (lit 0.3))))"

subsection \<open>calculateSpeedBonus\<close>

record thresholds =
  fast :: real
  medium :: real
  slow :: real

definition speedThresholds :: "(string \<times> thresholds) list" where
  "speedThresholds =
     [(''easy'', \<lparr>fast = 1, medium = 6, slow = 24\<rparr>),
      (''medium'', \<lparr>fast = 2, medium = 12, slow = 48\<rparr>),
      (''hard'', \<lparr>fast = 4, medium = 24, slow = 72\<rparr>),
      (''expert'', \<lparr>fast = 8, medium = 48, slow = 120\<rparr>)]"

text \<open>
  \<open>speedThresholds[challengeDifficulty] || speedThresholds.medium\<close>. An inherited
  property is kept; it has no \<open>fast\<close> and no \<open>medium\<close>, which is \<open>None\<close> here.
\<close>

definition thresholds_for :: "string \<Rightarrow> thresholds option" where
  "thresholds_for challengeDifficulty =
     (case get_property speedThresholds challengeDifficulty of
        Own t \<Rightarrow> Some t
      | Inherited \<Rightarrow> None
      | Undefined \<Rightarrow> Some \<lparr>fast = 2, medium = 12, slow = 48\<rparr>)"

text \<open>
  With thresholds that are \<open>undefined\<close> both comparisons are false, as they are when a
  date is invalid, and the function returns 0.
\<close>

definition calculateSpeedBonus_try :: "timestamp \<Rightarrow> timestamp \<Rightarrow> string \<Rightarrow> real outcome" where
  "calculateSpeedBonus_try challengeReleaseTime solveTime challengeDifficulty =
     (case (challengeReleaseTime, solveTime) of
        (Time releaseMs, Time solveMs) \<Rightarrow>
          let timeDiffHours =
                js_divide (js_minus (of_int solveMs) (of_int releaseMs)) (1000 * 60 * 60)
          in (case thresholds_for challengeDifficulty of
                None \<Rightarrow> Returned 0
              | Some t \<Rightarrow>
                  if timeDiffHours \<le> fast t then Returned 25
                  else if timeDiffHours \<le> medium t then Returned 10
                  else Returned 0)
      | _ \<Rightarrow> Returned 0)"

definition calculateSpeedBonus :: "timestamp \<Rightarrow> timestamp \<Rightarrow> string \<Rightarrow> real outcome" where
  "calculateSpeedBonus challengeReleaseTime solveTime challengeDifficulty =
     try_catch (calculateSpeedBonus_try challengeReleaseTime solveTime challengeDifficulty) 0"

subsection \<open>calculateTotalScore\<close>

record breakdown =
  b_challenge :: string
  b_category :: string
  b_daily :: bool
  b_solveTime :: timestamp
  b_teamSize :: int

record score =
  basePoints :: real
  dynamicPoints :: number
  firstBloodBonus :: real
  speedBonus :: real
  teamSizeModifier :: real
  totalPoints :: number
  isFirstBlood :: bool
  breakdown :: "breakdown option"

text \<open>\<open>s || dflt\<close> on a nullable string: \<open>null\<close> and the empty string give the default.\<close>

definition string_or :: "string option \<Rightarrow> string \<Rightarrow> string" where
  "string_or s dflt = (case s of None \<Rightarrow> dflt | Some v \<Rightarrow> if v = [] then dflt else v)"

definition calculateTotalScore_try ::
  "supabase \<Rightarrow> string \<Rightarrow> string \<Rightarrow> int \<Rightarrow> timestamp \<Rightarrow> score outcome" where
  "calculateTotalScore_try sb challengeId teamId teamSize solveTime =
     await (challenges_single sb challengeId) (\<lambda>challenge.
       let basePoints = (case challenge of None \<Rightarrow> 100 | Some ch \<Rightarrow> points_or_100 (points ch)) in
       await (calculateDynamicPoints sb challengeId) (\<lambda>dynamicPoints.
       await (calculateFirstBloodBonus sb challengeId teamId) (\<lambda>firstBlood.
       await (calculateSpeedBonus
                (case challenge of
                   None \<Rightarrow> solveTime
                 | Some ch \<Rightarrow> (case created_at ch of None \<Rightarrow> solveTime | Some t \<Rightarrow> t))
                solveTime
                (case challenge of
                   None \<Rightarrow> ''medium''
                 | Some ch \<Rightarrow> string_or (difficulty ch) ''medium'')) (\<lambda>speedBonus.
         let teamSizeModifier = calculateTeamSizeModifier teamSize 4;
             adjustedPoints = Math_round (num_times dynamicPoints (Num teamSizeModifier));
             totalPoints =
               num_plus (num_plus adjustedPoints (Num (fb_points firstBlood))) (Num speedBonus)
         in Returned
              \<lparr>basePoints = basePoints,
               dynamicPoints = dynamicPoints,
               firstBloodBonus = fb_points firstBlood,
               speedBonus = speedBonus,
               teamSizeModifier = teamSizeModifier,
               totalPoints = totalPoints,
               isFirstBlood = fb_isFirstBlood firstBlood,
               breakdown = Some
                 \<lparr>b_challenge =
                    (case challenge of
                       None \<Rightarrow> ''unknown''
                     | Some ch \<Rightarrow> string_or (difficulty ch) ''unknown''),
                  b_category =
                    (case challenge of
                       None \<Rightarrow> ''unknown''
                     | Some ch \<Rightarrow> string_or (category ch) ''unknown''),
                  b_daily = (case challenge of None \<Rightarrow> False | Some ch \<Rightarrow> daily ch = Some True),
                  b_solveTime = solveTime,
                  b_teamSize = teamSize\<rparr>\<rparr>))))"

definition calculateTotalScore ::
  "supabase \<Rightarrow> string \<Rightarrow> string \<Rightarrow> int \<Rightarrow> timestamp \<Rightarrow> score outcome" where
  "calculateTotalScore sb challengeId teamId teamSize solveTime =
     try_catch (calculateTotalScore_try sb challengeId teamId teamSize solveTime)
       \<lparr>basePoints = 100,
        dynamicPoints = Num 100,
        firstBloodBonus = 0,
        speedBonus = 0,
        teamSizeModifier = lit 1.0,
        totalPoints = Num 100,
        isFirstBlood = False,
        breakdown = None\<rparr>"

section \<open>A store that answers\<close>

text \<open>
  The tables the engine and the flag handler touch. \<open>solves\<close> and \<open>competition_settings\<close>
  are kept in the order of their \<open>created_at\<close> column, oldest first, so that
  \<open>.order('created_at', { ascending: true }).limit(1)\<close> is the head of the list and the
  descending order gives its last row. \<open>sessions\<close> stands for the authentication service:
  the user id behind each bearer token.
\<close>

record profile_row =
  profile_user_id :: string
  display_name :: "string option"
  profile_team_name :: "string option"

record db =
  challenges :: "challenge_row list"
  challenge_flags :: "(string \<times> string) list"
  teams :: "string list"
  solves :: "solve_row list"
  competition_settings :: "settings_row list"
  profiles :: "profile_row list"
  sessions :: "(string \<times> string) list"
  user_activity_logs :: "(string \<times> string \<times> string) list"

text \<open>\<open>.single()\<close> gives the row when exactly one row matches and \<open>null\<close> otherwise.\<close>

fun single :: "'a list \<Rightarrow> 'a option" where
  "single [x] = Some x"
| "single _ = None"

text \<open>\<open>.limit(1).single()\<close> gives the first row when there is one.\<close>

fun first_row :: "'a list \<Rightarrow> 'a option" where
  "first_row [] = None"
| "first_row (x # _) = Some x"

definition solves_of :: "db \<Rightarrow> string \<Rightarrow> solve_row list" where
  "solves_of d challengeId = filter (\<lambda>s. challenge_id s = challengeId) (solves d)"

definition connect :: "db \<Rightarrow> supabase" where
  "connect d =
     \<lparr>challenges_single = (\<lambda>challengeId.
        Returned (single (filter (\<lambda>c. ch_id c = challengeId) (challenges d)))),
      teams_count = Returned (Some (length (filter (\<lambda>name. name \<noteq> ''guest'') (teams d)))),
      solves_count = (\<lambda>challengeId. Returned (Some (length (solves_of d challengeId)))),
      solves_first = (\<lambda>challengeId. Returned (first_row (solves_of d challengeId))),
      settings_latest = Returned (first_row (rev (competition_settings d)))\<rparr>"

section \<open>The flag handler\<close>

text \<open>
  What the handler reads from a request: the verdict of the rate limiter for the caller's
  address, the parsed body (\<open>None\<close> when \<open>req.json()\<close> rejects) with \<open>id\<close> and \<open>flag\<close>
  already converted and trimmed, the verdict of the format expression on the flag, and
  the \<open>authorization\<close> header.
\<close>

record flag_request =
  rate_limit_allowed :: bool
  body :: "(string \<times> string) option"
  flag_format_ok :: bool
  authorization :: string

datatype response =
    RateLimited
  | MissingIdOrFlag
  | InvalidFlagFormat
  | LoginRequired
  | InvalidSession
  | DisplayNameRequired
  | UnknownChallenge
  | IncorrectFlag
  | Correct (resp_points: int) (resp_awarded: int) (resp_message: string)
  | InvalidRequest

text \<open>\<open>authHeader.startsWith("Bearer ") ? authHeader.slice(7) : undefined\<close>.\<close>

definition bearer_token :: "string \<Rightarrow> string option" where
  "bearer_token authHeader =
     (if take 7 authHeader = ''Bearer '' then Some (drop 7 authHeader) else None)"

text \<open>
  Modelled from the spec: the uniqueness rule of the \<open>solves\<close> table, whose definition is
  not among the sources. The handler sends a plain insert and never looks at its result
  (the \<open>onConflict\<close> and \<open>ignoreDuplicates\<close> options it passes belong to \<open>upsert\<close> and have
  no effect). The description gives the repository a conditional write, "insert a solve
  only if no existing record for that team+challenge": the store refuses a row whose
  team and challenge are already recorded.
\<close>

definition insert_solve :: "solve_row \<Rightarrow> solve_row list \<Rightarrow> solve_row list" where
  "insert_solve r rows =
     (if filter (\<lambda>s. team_name s = team_name r \<and> challenge_id s = challenge_id r) rows = []
      then rows @ [r] else rows)"

text \<open>The upsert of the profile on \<open>user_id\<close>.\<close>

definition upsert_profile :: "profile_row \<Rightarrow> profile_row list \<Rightarrow> profile_row list" where
  "upsert_profile p rows =
     (if filter (\<lambda>q. profile_user_id q = profile_user_id p) rows = []
      then rows @ [p]
      else map (\<lambda>q. if profile_user_id q = profile_user_id p then p else q) rows)"

definition existingTeamSolve :: "db \<Rightarrow> string \<Rightarrow> string \<Rightarrow> solve_row list" where
  "existingTeamSolve d teamName challengeId =
     take 1 (filter (\<lambda>s. team_name s = teamName \<and> challenge_id s = challengeId) (solves d))"

text \<open>\<open>Number(ch?.points ?? 0)\<close> on the challenge row read by \<open>.single()\<close>.\<close>

definition challenge_points :: "db \<Rightarrow> string \<Rightarrow> int" where
  "challenge_points d challengeId =
     (case single (filter (\<lambda>c. ch_id c = challengeId) (challenges d)) of
        None \<Rightarrow> 0
      | Some ch \<Rightarrow> (case points ch of None \<Rightarrow> 0 | Some p \<Rightarrow> p))"

text \<open>
  \<open>profile?.team_name ?? `guest_${user.id}`\<close>, and the name after a member of the shared
  \<open>guest\<close> team has been moved to a team of their own.
\<close>

definition teamName0_of :: "string \<Rightarrow> profile_row \<Rightarrow> string" where
  "teamName0_of userId profile =
     (case profile_team_name profile of None \<Rightarrow> ''guest_'' @ userId | Some t \<Rightarrow> t)"

definition teamName_of :: "string \<Rightarrow> profile_row \<Rightarrow> string" where
  "teamName_of userId profile =
     (if teamName0_of userId profile = ''guest'' then ''guest_'' @ userId
      else teamName0_of userId profile)"

text \<open>The part of the handler that runs once the flag has been found correct.\<close>

definition award :: "db \<Rightarrow> string \<Rightarrow> profile_row \<Rightarrow> string \<Rightarrow> response \<times> db" where
  "award d userId profile challengeId =
     (let pts = challenge_points d challengeId;
          teamName = teamName_of userId profile;
          d1 = (if teamName0_of userId profile = ''guest''
                then d\<lparr>profiles :=
                        upsert_profile
                          \<lparr>profile_user_id = userId,
                           display_name = display_name profile,
                           profile_team_name = Some teamName\<rparr>
                          (profiles d)\<rparr>
                else d);
          awarded = (if existingTeamSolve d1 teamName challengeId \<noteq> [] then 0 else pts);
          d2 = d1\<lparr>solves :=
                    insert_solve
                      \<lparr>user_id = userId, team_name = teamName,
                       challenge_id = challengeId, solve_points = pts\<rparr>
                      (solves d1)\<rparr>
      in (Correct pts awarded
            (if awarded > 0 then ''Correct! Points awarded to your team.''
             else ''Correct! You already solved this challenge.''),
          d2))"

definition POST_try :: "flag_request \<Rightarrow> db \<Rightarrow> (response \<times> db) outcome" where
  "POST_try req d =
     (if \<not> rate_limit_allowed req then Returned (RateLimited, d)
      else
        case body req of
          None \<Rightarrow> Raised
        | Some (challengeId, flag) \<Rightarrow>
            if challengeId = [] \<or> flag = [] then Returned (MissingIdOrFlag, d)
            else if \<not> flag_format_ok req then Returned (InvalidFlagFormat, d)
            else
              case bearer_token (authorization req) of
                None \<Rightarrow> Returned (LoginRequired, d)
              | Some token \<Rightarrow>
                  if token = [] then Returned (LoginRequired, d)
                  else
                    case map_of (sessions d) token of
                      None \<Rightarrow> Returned (InvalidSession, d)
                    | Some userId \<Rightarrow>
                        (case single (filter (\<lambda>p. profile_user_id p = userId) (profiles d)) of
                           None \<Rightarrow> Returned (DisplayNameRequired, d)
                         | Some profile \<Rightarrow>
                             if display_name profile = None \<or> display_name profile = Some []
                             then Returned (DisplayNameRequired, d)
                             else
                               (case single (filter (\<lambda>cf. fst cf = challengeId)
                                               (challenge_flags d)) of
                                  None \<Rightarrow> Returned (UnknownChallenge, d)
                                | Some secret \<Rightarrow>
                                    if snd secret \<noteq> flag
                                    then Returned
                                           (IncorrectFlag,
                                            d\<lparr>user_activity_logs :=
                                                 user_activity_logs d
                                                   @ [(userId, ''flag_attempt_failed'',
                                                       challengeId)]\<rparr>)
                                    else Returned (award d userId profile challengeId))))"

definition POST :: "flag_request \<Rightarrow> db \<Rightarrow> (response \<times> db) outcome" where
  "POST req d = try_catch (POST_try req d) (InvalidRequest, d)"

text \<open>
  The requests that reach \<open>award\<close>: every guard of the handler passes and the flag is the
  stored one, for the user, profile and challenge named.
\<close>

definition accepted :: "flag_request \<Rightarrow> db \<Rightarrow> string \<Rightarrow> profile_row \<Rightarrow> string \<Rightarrow> bool" where
  "accepted req d userId profile challengeId =
     (rate_limit_allowed req \<and> flag_format_ok req \<and>
      (case body req of
         None \<Rightarrow> False
       | Some (cid, flag) \<Rightarrow>
           cid = challengeId \<and> cid \<noteq> [] \<and> flag \<noteq> [] \<and>
           (case bearer_token (authorization req) of
              None \<Rightarrow> False
            | Some token \<Rightarrow>
                token \<noteq> [] \<and> map_of (sessions d) token = Some userId \<and>
                single (filter (\<lambda>p. profile_user_id p = userId) (profiles d)) = Some profile \<and>
                display_name profile \<noteq> None \<and> display_name profile \<noteq> Some [] \<and>
                (case single (filter (\<lambda>cf. fst cf = challengeId) (challenge_flags d)) of
                   None \<Rightarrow> False
                 | Some secret \<Rightarrow> snd secret = flag))))"

section \<open>The description of the engine\<close>



definition spec_multiplier :: "(string \<times> real) list \<Rightarrow> string option \<Rightarrow> real" where
  "spec_multiplier table k =
     (case k of
        None \<Rightarrow> lit 1.0
      | Some key \<Rightarrow> (case map_of table key of None \<Rightarrow> lit 1.0 | Some v \<Rightarrow> v))"



text \<open>
  A key that reads no inherited property, and a key that in addition has no entry in
  the table.
\<close>

definition plain_key :: "string option \<Rightarrow> bool" where
  "plain_key k = (case k of None \<Rightarrow> True | Some key \<Rightarrow> key \<notin> set Object_prototype)"

definition unlisted :: "(string \<times> real) list \<Rightarrow> string option \<Rightarrow> bool" where
  "unlisted table k =
     (case k of
        None \<Rightarrow> True
      | Some key \<Rightarrow> map_of table key = None \<and> key \<notin> set Object_prototype)"

section \<open>Reading a computation\<close>

text \<open>The total and the base value of the breakdown a computation returns.\<close>

definition total_of :: "score outcome \<Rightarrow> number option" where
  "total_of x = (case x of Raised \<Rightarrow> None | Returned r \<Rightarrow> Some (totalPoints r))"

definition base_of :: "score outcome \<Rightarrow> real option" where
  "base_of x = (case x of Raised \<Rightarrow> None | Returned r \<Rightarrow> Some (basePoints r))"

text \<open>The first-blood bonus of the latest settings row, when there is one, is not negative.\<close>

definition bonus_not_negative :: "supabase \<Rightarrow> bool" where
  "bonus_not_negative sb =
     (case settings_latest sb of
        Returned (Some s) \<Rightarrow> (case first_blood_bonus s of Some b \<Rightarrow> 0 \<le> b | None \<Rightarrow> True)
      | _ \<Rightarrow> True)"

section \<open>Example stores\<close>

text \<open>
  One challenge of 100 points, hard, in the crypto category, released at time 0; two
  teams besides the shared guest team; two members of team alpha.
\<close>

definition ch_hard :: challenge_row where
  "ch_hard =
     \<lparr>ch_id = ''c1'', points = Some 100, difficulty = Some ''hard'',
      category = Some ''crypto'', daily = Some False, created_at = Some (Time 0)\<rparr>"

definition db_fresh :: db where
  "db_fresh =
     \<lparr>challenges = [ch_hard],
      challenge_flags = [(''c1'', ''editaCTF{x}'')],
      teams = [''guest'', ''alpha'', ''beta''],
      solves = [],
      competition_settings = [],
      profiles =
        [\<lparr>profile_user_id = ''u1'', display_name = Some ''Al'', profile_team_name = Some ''alpha''\<rparr>,
         \<lparr>profile_user_id = ''u2'', display_name = Some ''Bo'', profile_team_name = Some ''alpha''\<rparr>],
      sessions = [(''t1'', ''u1''), (''t2'', ''u2'')],
      user_activity_logs = []\<rparr>"

definition solve_u1 :: solve_row where
  "solve_u1 = \<lparr>user_id = ''u1'', team_name = ''alpha'', challenge_id = ''c1'', solve_points = 100\<rparr>"

definition db_solved :: db where
  "db_solved = db_fresh\<lparr>solves := [solve_u1]\<rparr>"

definition settings_bonus :: "int \<Rightarrow> settings_row" where
  "settings_bonus b =
     \<lparr>dynamic_scoring = Some True, first_blood_bonus = Some b,
      team_size_penalty = Some True, speed_bonus = Some True\<rparr>"

definition db_zero_bonus :: db where
  "db_zero_bonus = db_fresh\<lparr>competition_settings := [settings_bonus 0]\<rparr>"

definition db_negative_bonus :: db where
  "db_negative_bonus = db_fresh\<lparr>competition_settings := [settings_bonus (- 500)]\<rparr>"

definition db_static :: db where
  "db_static =
     db_fresh\<lparr>competition_settings :=
       [\<lparr>dynamic_scoring = Some False, first_blood_bonus = Some 50,
         team_size_penalty = Some True, speed_bonus = Some True\<rparr>]\<rparr>"

text \<open>A store whose read of the challenge fails although the challenge has been solved.\<close>

definition sb_unreadable :: supabase where
  "sb_unreadable = (connect db_solved)\<lparr>challenges_single := (\<lambda>_. Returned None)\<rparr>"

text \<open>A challenge of 1000 points, solved once, on a store whose count of teams throws.\<close>

definition ch_big :: challenge_row where
  "ch_big =
     \<lparr>ch_id = ''c2'', points = Some 1000, difficulty = Some ''easy'',
      category = Some ''web'', daily = Some False, created_at = Some (Time 0)\<rparr>"

definition db_big :: db where
  "db_big =
     db_fresh\<lparr>challenges := [ch_big],
              solves := [\<lparr>user_id = ''u1'', team_name = ''alpha'', challenge_id = ''c2'',
                          solve_points = 1000\<rparr>]\<rparr>"

definition sb_counts_throw :: supabase where
  "sb_counts_throw = (connect db_big)\<lparr>teams_count := Raised\<rparr>"

section \<open>Example requests\<close>

text \<open>
  The two members of team alpha submit the flag of challenge \<open>c1\<close>; a solve by the second
  member; a store with no team but the shared guest team; a challenge whose difficulty
  is not in the table and whose category and daily flag are missing.
\<close>

definition req_u1 :: flag_request where
  "req_u1 =
     \<lparr>rate_limit_allowed = True, body = Some (''c1'', ''editaCTF{x}''),
      flag_format_ok = True, authorization = ''Bearer t1''\<rparr>"

definition req_u2 :: flag_request where
  "req_u2 = req_u1\<lparr>authorization := ''Bearer t2''\<rparr>"

definition profile_u1 :: profile_row where
  "profile_u1 =
     \<lparr>profile_user_id = ''u1'', display_name = Some ''Al'', profile_team_name = Some ''alpha''\<rparr>"

definition profile_u2 :: profile_row where
  "profile_u2 =
     \<lparr>profile_user_id = ''u2'', display_name = Some ''Bo'', profile_team_name = Some ''alpha''\<rparr>"

definition solve_u2 :: solve_row where
  "solve_u2 = \<lparr>user_id = ''u2'', team_name = ''alpha'', challenge_id = ''c1'', solve_points = 100\<rparr>"

definition db_no_teams :: db where
  "db_no_teams = db_fresh\<lparr>teams := [''guest'']\<rparr>"

definition ch_plain :: challenge_row where
  "ch_plain =
     \<lparr>ch_id = ''c3'', points = Some 40, difficulty = Some ''insane'',
      category = None, daily = None, created_at = None\<rparr>"

definition db_plain :: db where
  "db_plain = db_fresh\<lparr>challenges := [ch_plain]\<rparr>"

text \<open>
  A challenge of 100 points whose category is the name of an inherited property; a
  challenge of 45 points, easy, in the web category, which nine of ten teams have solved.
\<close>

definition ch_ctor :: challenge_row where
  "ch_ctor =
     \<lparr>ch_id = ''c4'', points = Some 100, difficulty = Some ''easy'',
      category = Some ''constructor'', daily = Some False, created_at = Some (Time 0)\<rparr>"

definition db_ctor :: db where
  "db_ctor = db_fresh\<lparr>challenges := [ch_ctor]\<rparr>"



section \<open>Rounding to a double\<close>

lemma round_even_upper: "of_int (round_even r) \<le> r + 1 / 2"
  unfolding round_even_def by (auto; linarith)

lemma round_even_lower: "r - 1 / 2 \<le> of_int (round_even r)"
  unfolding round_even_def by (auto; linarith)

lemma round_even_of_int: "round_even (of_int m) = m"
  by (simp add: round_even_def)

lemma round_even_mono:
  assumes "r \<le> s"
  shows "round_even r \<le> round_even s"
proof (cases "\<lfloor>r\<rfloor> = \<lfloor>s\<rfloor>")
  case True
  then show ?thesis
    using assms unfolding round_even_def by (auto; linarith)
next
  case False
  then have "\<lfloor>r\<rfloor> + 1 \<le> \<lfloor>s\<rfloor>"
    using assms floor_mono [of r s] by linarith
  moreover have "round_even r \<le> \<lfloor>r\<rfloor> + 1"
    unfolding round_even_def by auto
  moreover have "\<lfloor>s\<rfloor> \<le> round_even s"
    unfolding round_even_def by auto
  ultimately show ?thesis by linarith
qed

lemma p2_pos: "0 < p2 j"
  by (simp add: p2_def)

lemma p2_add: "p2 (i + j) = p2 i * p2 j"
  by (simp add: p2_def powr_add)

lemma p2_nat: "p2 (int n) = 2 ^ n"
  by (simp add: p2_def powr_realpow)

lemma p2_0: "p2 0 = 1"
  by (simp add: p2_def)

lemma p2_1: "p2 1 = 2"
  by (simp add: p2_def)

lemma p2_52: "p2 52 = 2 ^ 52"
  using p2_nat [of 52] by simp

lemma p2_53: "p2 53 = 2 ^ 53"
  using p2_nat [of 53] by simp

lemma p2_le: "p2 i \<le> p2 j \<longleftrightarrow> i \<le> j"
  by (simp add: p2_def)

lemma p2_less: "p2 i < p2 j \<longleftrightarrow> i < j"
  by (simp add: p2_def)

lemma p2_diff:
  assumes "i \<le> j"
  shows "p2 j / p2 i = 2 ^ nat (j - i)"
proof -
  have "p2 j = p2 (i + int (nat (j - i)))" using assms by simp
  also have "\<dots> = p2 i * 2 ^ nat (j - i)" by (simp only: p2_add p2_nat)
  finally show ?thesis using p2_pos [of i] by simp
qed

lemma expo_bounds:
  assumes "x \<noteq> 0"
  shows "p2 (expo x) \<le> \<bar>x\<bar>" and "\<bar>x\<bar> < p2 (expo x + 1)"
proof -
  have "0 < \<bar>x\<bar>" using assms by simp
  then have "2 powr of_int (expo x) \<le> \<bar>x\<bar> \<and> \<bar>x\<bar> < 2 powr (of_int (expo x) + 1)"
    using floor_log_eq_powr_iff [of "\<bar>x\<bar>" 2 "expo x"] by (simp add: expo_def)
  then show "p2 (expo x) \<le> \<bar>x\<bar>" and "\<bar>x\<bar> < p2 (expo x + 1)"
    by (simp_all add: p2_def)
qed

lemma expo_unique:
  assumes "x \<noteq> 0" "p2 k \<le> \<bar>x\<bar>" "\<bar>x\<bar> < p2 (k + 1)"
  shows "expo x = k"
proof -
  have "0 < \<bar>x\<bar>" using assms by simp
  then show ?thesis
    using floor_log_eq_powr_iff [of "\<bar>x\<bar>" 2 k] assms by (simp add: expo_def p2_def)
qed

lemma ulp_pos: "0 < ulp x"
  by (simp add: ulp_def p2_pos)

lemma p2_expo: "p2 (expo x) = 2 ^ 52 * ulp x"
proof -
  have "p2 (expo x) = p2 (52 + (expo x - 52))" by simp
  also have "\<dots> = p2 52 * p2 (expo x - 52)" by (simp only: p2_add)
  finally show ?thesis by (simp only: p2_52 ulp_def)
qed

lemma p2_expo_Suc: "p2 (expo x + 1) = 2 ^ 53 * ulp x"
proof -
  have "expo x + 1 = 53 + (expo x - 52)" by linarith
  then have "p2 (expo x + 1) = p2 (53 + (expo x - 52))" by (rule arg_cong)
  also have "\<dots> = p2 53 * p2 (expo x - 52)" by (simp only: p2_add)
  finally show ?thesis by (simp only: p2_53 ulp_def)
qed

lemma ulp_bounds:
  assumes "x \<noteq> 0"
  shows "2 ^ 52 * ulp x \<le> \<bar>x\<bar>" and "\<bar>x\<bar> < 2 ^ 53 * ulp x"
  using expo_bounds [OF assms] by (simp_all only: p2_expo p2_expo_Suc)

lemma ulp_unique:
  assumes "x \<noteq> 0" "2 ^ 52 * p2 j \<le> \<bar>x\<bar>" "\<bar>x\<bar> < 2 ^ 53 * p2 j"
  shows "ulp x = p2 j"
proof -
  have a: "p2 (j + 52) = 2 ^ 52 * p2 j"
    by (simp only: p2_add p2_52 mult.commute)
  have b: "p2 (j + 52 + 1) = 2 ^ 53 * p2 j"
  proof -
    have "j + 52 + 1 = j + 53" by linarith
    then have "p2 (j + 52 + 1) = p2 (j + 53)" by (rule arg_cong)
    then show ?thesis by (simp only: p2_add p2_53 mult.commute)
  qed
  have "expo x = j + 52"
  proof (rule expo_unique)
    show "x \<noteq> 0" by (rule assms(1))
    show "p2 (j + 52) \<le> \<bar>x\<bar>" unfolding a by (rule assms(2))
    show "\<bar>x\<bar> < p2 (j + 52 + 1)" unfolding b by (rule assms(3))
  qed
  then show ?thesis by (simp add: ulp_def)
qed

lemma scaled_range:
  assumes "0 < x"
  shows "2 ^ 52 \<le> x / ulp x" and "x / ulp x < 2 ^ 53"
  using ulp_bounds [of x] assms ulp_pos [of x] by (simp_all add: field_simps)

lemma mantissa_range:
  assumes "0 < x"
  shows "2 ^ 52 \<le> round_even (x / ulp x)" and "round_even (x / ulp x) \<le> 2 ^ 53"
proof -
  have "round_even (of_int (2 ^ 52)) \<le> round_even (x / ulp x)"
    using scaled_range(1) [OF assms] by (intro round_even_mono) simp
  then show "2 ^ 52 \<le> round_even (x / ulp x)" by (simp only: round_even_of_int)
  have "round_even (x / ulp x) \<le> round_even (of_int (2 ^ 53))"
    using scaled_range(2) [OF assms] by (intro round_even_mono) simp
  then show "round_even (x / ulp x) \<le> 2 ^ 53" by (simp only: round_even_of_int)
qed

lemma to_double_0: "to_double 0 = 0"
  by (simp add: to_double_def)

lemma to_double_pos_bounds:
  assumes "0 < x"
  shows "2 ^ 52 * ulp x \<le> to_double x" and "to_double x \<le> 2 ^ 53 * ulp x"
proof -
  have f: "to_double x = of_int (round_even (x / ulp x)) * ulp x"
    using assms by (simp add: to_double_def)
  have "(2 ^ 52 :: real) \<le> of_int (round_even (x / ulp x))"
    using mantissa_range(1) [OF assms] by simp
  then show "2 ^ 52 * ulp x \<le> to_double x"
    unfolding f using ulp_pos [of x] by (intro mult_right_mono) simp_all
  have "of_int (round_even (x / ulp x)) \<le> (2 ^ 53 :: real)"
    using mantissa_range(2) [OF assms] by simp
  then show "to_double x \<le> 2 ^ 53 * ulp x"
    unfolding f using ulp_pos [of x] by (intro mult_right_mono) simp_all
qed

lemma to_double_nonneg:
  assumes "0 \<le> x"
  shows "0 \<le> to_double x"
proof (cases "x = 0")
  case True
  then show ?thesis by (simp add: to_double_0)
next
  case False
  then have "0 < x" using assms by simp
  then have "2 ^ 52 * ulp x \<le> to_double x" by (rule to_double_pos_bounds(1))
  moreover have "0 \<le> 2 ^ 52 * ulp x" using ulp_pos [of x] by simp
  ultimately show ?thesis by linarith
qed

lemma to_double_nonpos:
  assumes "x \<le> 0"
  shows "to_double x \<le> 0"
proof (cases "x = 0")
  case True
  then show ?thesis by (simp add: to_double_0)
next
  case False
  then have neg: "x < 0" using assms by simp
  have "x / ulp x < 0" using neg ulp_pos [of x] by (simp add: divide_neg_pos)
  then have "of_int (round_even (x / ulp x)) \<le> (1 / 2 :: real)"
    using round_even_upper [of "x / ulp x"] by linarith
  then have "round_even (x / ulp x) \<le> 0" by linarith
  then have "of_int (round_even (x / ulp x)) * ulp x \<le> 0"
    using ulp_pos [of x] by (simp add: mult_nonpos_nonneg)
  then show ?thesis using False by (simp add: to_double_def)
qed

lemma expo_mono:
  assumes "0 < x" "x \<le> y"
  shows "expo x \<le> expo y"
  unfolding expo_def using assms by (intro floor_mono) simp

lemma to_double_mono:
  assumes "0 \<le> x" "x \<le> y"
  shows "to_double x \<le> to_double y"
proof (cases "x = 0")
  case True
  then show ?thesis using assms to_double_nonneg [of y] by (simp add: to_double_0)
next
  case False
  then have x: "0 < x" and y: "0 < y" using assms by simp_all
  show ?thesis
  proof (cases "expo x = expo y")
    case True
    then have u: "ulp y = ulp x" by (simp add: ulp_def)
    have "x / ulp x \<le> y / ulp x"
      using assms ulp_pos [of x] by (simp add: divide_right_mono)
    then have "round_even (x / ulp x) \<le> round_even (y / ulp x)"
      by (rule round_even_mono)
    then have "of_int (round_even (x / ulp x)) * ulp x \<le> of_int (round_even (y / ulp x)) * ulp x"
      using ulp_pos [of x] by (intro mult_right_mono) simp_all
    then show ?thesis using x y u by (simp add: to_double_def)
  next
    case False
    then have "expo x + 1 \<le> expo y" using expo_mono [OF x assms(2)] by linarith
    then have "p2 (expo x + 1) \<le> p2 (expo y)" by (simp only: p2_le)
    then have "2 ^ 53 * ulp x \<le> 2 ^ 52 * ulp y"
      by (simp only: p2_expo p2_expo_Suc)
    then show ?thesis
      using to_double_pos_bounds(2) [OF x] to_double_pos_bounds(1) [OF y] by linarith
  qed
qed

lemma to_double_error:
  assumes "x \<noteq> 0"
  shows "\<bar>to_double x - x\<bar> \<le> \<bar>x\<bar> / 2 ^ 53"
proof -
  define u where "u = ulp x"
  define m where "m = real_of_int (round_even (x / u))"
  have u: "0 < u" by (simp add: u_def ulp_pos)
  have f: "to_double x = m * u" using assms by (simp add: to_double_def m_def u_def)
  have "\<bar>m - x / u\<bar> \<le> 1 / 2"
    using round_even_upper [of "x / u"] round_even_lower [of "x / u"] unfolding m_def by linarith
  then have "\<bar>m - x / u\<bar> * u \<le> 1 / 2 * u"
    using u by (intro mult_right_mono) simp_all
  moreover have "\<bar>m - x / u\<bar> * u = \<bar>m * u - x\<bar>"
  proof -
    have "\<bar>m - x / u\<bar> * u = \<bar>(m - x / u) * u\<bar>" using u by (simp add: abs_mult)
    also have "(m - x / u) * u = m * u - x" using u by (simp add: field_simps)
    finally show ?thesis .
  qed
  ultimately have "\<bar>to_double x - x\<bar> \<le> u / 2" by (simp add: f)
  moreover have "2 ^ 52 * u \<le> \<bar>x\<bar>" using ulp_bounds(1) [OF assms] by (simp add: u_def)
  ultimately show ?thesis by simp
qed

lemma to_double_fixed:
  assumes "x \<noteq> 0" "x / ulp x = of_int m"
  shows "to_double x = x"
proof -
  have "to_double x = of_int (round_even (of_int m)) * ulp x"
    using assms by (simp add: to_double_def)
  also have "\<dots> = of_int m * ulp x" by (simp only: round_even_of_int)
  also have "\<dots> = x" using assms(2) ulp_pos [of x] by (simp add: field_simps)
  finally show ?thesis .
qed

lemma to_double_representable:
  assumes x: "x = of_int m * p2 j" and m: "m \<noteq> 0" "\<bar>m\<bar> < 2 ^ 53"
  shows "to_double x = x"
proof -
  have x0: "x \<noteq> 0" using x m(1) p2_pos [of j] by simp
  have ax: "\<bar>x\<bar> = \<bar>of_int m\<bar> * p2 j"
    unfolding x using p2_pos [of j] by (simp add: abs_mult)
  have "\<bar>real_of_int m\<bar> < 2 ^ 53" using m(2) by (simp flip: of_int_abs)
  then have "\<bar>x\<bar> < 2 ^ 53 * p2 j"
    unfolding ax using p2_pos [of j] by (intro mult_strict_right_mono)
  also have "\<dots> = p2 (53 + j)" by (simp only: p2_add p2_53)
  finally have "p2 (expo x) < p2 (53 + j)"
    using expo_bounds(1) [OF x0] by linarith
  then have "expo x < 53 + j" by (simp only: p2_less)
  then have le: "expo x - 52 \<le> j" by linarith
  have "x / ulp x = of_int m * (p2 j / p2 (expo x - 52))"
    unfolding ulp_def x by simp
  also have "\<dots> = of_int m * 2 ^ nat (j - (expo x - 52))"
    by (simp only: p2_diff [OF le])
  also have "\<dots> = of_int (m * 2 ^ nat (j - (expo x - 52)))" by simp
  finally show ?thesis by (rule to_double_fixed [OF x0])
qed

lemma to_double_p2: "to_double (p2 j) = p2 j"
  using to_double_representable [of "p2 j" 1 j] by simp

lemma to_double_of_int:
  assumes "\<bar>n\<bar> \<le> 2 ^ 53"
  shows "to_double (of_int n) = of_int n"
proof (cases "n = 0")
  case True
  then show ?thesis by (simp add: to_double_0)
next
  case False
  show ?thesis
  proof (cases "\<bar>n\<bar> = 2 ^ 53")
    case True
    then have "n = 2 ^ 53 \<or> n = - (2 ^ 53)" by linarith
    then show ?thesis
    proof
      assume "n = 2 ^ 53"
      then have "real_of_int n = of_int 1 * p2 53" by (simp add: p2_53)
      then show ?thesis by (rule to_double_representable) simp_all
    next
      assume "n = - (2 ^ 53)"
      then have "real_of_int n = of_int (- 1) * p2 53" by (simp add: p2_53)
      then show ?thesis by (rule to_double_representable) simp_all
    qed
  next
    case ne: False
    have r: "real_of_int n = of_int n * p2 0" by (simp add: p2_0)
    have "\<bar>n\<bar> < 2 ^ 53" using ne assms by linarith
    then show ?thesis by (rule to_double_representable [OF r False])
  qed
qed

lemma to_double_idem:
  assumes "0 \<le> x"
  shows "to_double (to_double x) = to_double x"
proof (cases "x = 0")
  case True
  then show ?thesis by (simp add: to_double_0)
next
  case False
  then have x: "0 < x" using assms by simp
  define M where "M = round_even (x / ulp x)"
  have f: "to_double x = of_int M * p2 (expo x - 52)" using False by (simp add: to_double_def M_def ulp_def)
  have M: "2 ^ 52 \<le> M" "M \<le> 2 ^ 53"
    using mantissa_range [OF x] by (simp_all add: M_def)
  show ?thesis
  proof (cases "M = 2 ^ 53")
    case True
    have "to_double x = p2 53 * p2 (expo x - 52)" unfolding f True by (simp add: p2_53)
    then have "to_double x = p2 (53 + (expo x - 52))" by (simp only: p2_add)
    then show ?thesis by (simp only: to_double_p2)
  next
    case False
    have "(0::int) < 2 ^ 52" by simp
    then have "M \<noteq> 0" "\<bar>M\<bar> < 2 ^ 53" using M False by linarith+
    then show ?thesis by (rule to_double_representable [OF f])
  qed
qed

lemma to_double_round:
  assumes "0 \<le> y" "to_double y = y"
  shows "to_double (of_int \<lfloor>y + 1 / 2\<rfloor>) = of_int \<lfloor>y + 1 / 2\<rfloor>"
proof (cases "y < 2 ^ 52")
  case True
  then have "y + 1 / 2 < of_int (2 ^ 52) + 1" by simp
  then have "\<lfloor>y + 1 / 2\<rfloor> \<le> 2 ^ 52" by (simp only: floor_le_iff)
  moreover have "0 \<le> \<lfloor>y + 1 / 2\<rfloor>" using assms(1) by simp
  moreover have "(2::int) ^ 52 \<le> 2 ^ 53" by simp
  ultimately have "\<bar>\<lfloor>y + 1 / 2\<rfloor>\<bar> \<le> 2 ^ 53" by linarith
  then show ?thesis by (rule to_double_of_int)
next
  case False
  then have y: "0 < y" "2 ^ 52 \<le> y" by simp_all
  have y0: "y \<noteq> 0" using y by simp
  define M where "M = round_even (y / ulp y)"
  have f: "y = of_int M * ulp y" using assms(2) y0 by (simp add: to_double_def M_def)
  have "y < 2 ^ 53 * ulp y" using ulp_bounds(2) [OF y0] y by simp
  then have "2 ^ 52 < 2 ^ 53 * ulp y" using y(2) by linarith
  moreover have "p2 (expo y - 52 + 1) = ulp y * 2" by (simp only: p2_add p2_1 ulp_def)
  ultimately have "p2 0 < p2 (expo y - 52 + 1)" by (simp add: p2_0)
  then have "0 < expo y - 52 + 1" by (simp only: p2_less)
  then have le: "0 \<le> expo y - 52" by linarith
  have "ulp y = p2 (expo y - 52) / p2 0" by (simp add: ulp_def p2_0)
  also have "\<dots> = 2 ^ nat (expo y - 52 - 0)" by (rule p2_diff [OF le])
  finally have "y = of_int (M * 2 ^ nat (expo y - 52))"
    using f by simp
  then obtain K :: int where K: "y = of_int K" by blast
  have "\<lfloor>of_int K + (1 / 2 :: real)\<rfloor> = K"
    by (rule floor_unique) simp_all
  then have "of_int \<lfloor>y + 1 / 2\<rfloor> = y" by (simp add: K)
  then show ?thesis using assms(2) by simp
qed

lemma expo_double:
  assumes "x \<noteq> 0"
  shows "expo (2 * x) = expo x + 1"
proof (rule expo_unique)
  show "2 * x \<noteq> 0" using assms by simp
  have "p2 (expo x + 1) = p2 (expo x) * 2" by (simp only: p2_add p2_1)
  then show "p2 (expo x + 1) \<le> \<bar>2 * x\<bar>"
    using expo_bounds(1) [OF assms] by (simp add: abs_mult)
  have "p2 (expo x + 1 + 1) = p2 (expo x + 1) * 2" by (simp only: p2_add p2_1)
  then show "\<bar>2 * x\<bar> < p2 (expo x + 1 + 1)"
    using expo_bounds(2) [OF assms] by (simp add: abs_mult)
qed

lemma to_double_double: "to_double (2 * x) = 2 * to_double x"
proof (cases "x = 0")
  case True
  then show ?thesis by (simp add: to_double_0)
next
  case False
  have "ulp (2 * x) = p2 (expo x - 52 + 1)"
    by (simp add: ulp_def expo_double [OF False])
  also have "\<dots> = ulp x * 2" by (simp only: p2_add p2_1 ulp_def)
  finally have u: "ulp (2 * x) = ulp x * 2" .
  show ?thesis
    using False by (simp add: to_double_def u)
qed

lemma to_double_in_range:
  assumes "2 ^ 52 \<le> \<bar>x\<bar>" "\<bar>x\<bar> < 2 ^ 53"
  shows "to_double x = of_int (round_even x)"
proof -
  have x0: "x \<noteq> 0" using assms(1) by auto
  have "ulp x = p2 0"
    by (rule ulp_unique) (use x0 assms in \<open>simp_all add: p2_0\<close>)
  then show ?thesis using x0 by (simp add: to_double_def p2_0)
qed

lemma to_double_up:
  assumes "x \<noteq> 0" "\<bar>x\<bar> < 2 ^ 52"
  shows "to_double x = to_double (2 * x) / 2"
  by (simp add: to_double_double)

lemma to_double_down:
  assumes "2 ^ 53 \<le> \<bar>x\<bar>"
  shows "to_double x = 2 * to_double (x / 2)"
  using to_double_double [of "x / 2"] by simp


lemma to_double_code [code]:
  "to_double x =
     (if x = 0 then 0
      else if \<bar>x\<bar> < 2 ^ 52 then to_double (2 * x) / 2
      else if 2 ^ 53 \<le> \<bar>x\<bar> then 2 * to_double (x / 2)
      else of_int (round_even x))"
  using to_double_double [of x] to_double_double [of "x / 2"] to_double_in_range [of x]
  by (auto simp: to_double_0)

lemmas double_eval =
  to_double_0 to_double_up to_double_down to_double_in_range round_even_def
  lit_def js_times_def js_divide_def js_minus_def js_plus_def
  num_times_def num_plus_def Math_round_def Math_max_def num_le_def

lemma to_double_1: "to_double 1 = 1"
  using to_double_of_int [of 1] by simp

lemma to_double_numeral:
  assumes "(numeral n :: int) \<le> 2 ^ 53"
  shows "to_double (numeral n) = numeral n"
  using to_double_of_int [of "numeral n"] assms by simp

lemma lit_values:
  "lit 0.1 = 3602879701896397 / 36028797018963968"
  "lit 0.25 = 1 / 4"
  "lit 0.3 = 5404319552844595 / 18014398509481984"
  "lit 0.5 = 1 / 2"
  "lit 0.7 = 3152519739159347 / 4503599627370496"
  "lit 0.8 = 3602879701896397 / 4503599627370496"
  "lit 1.0 = 1"
  "lit 1.1 = 2476979795053773 / 2251799813685248"
  "lit 1.2 = 5404319552844595 / 4503599627370496"
  "lit 1.3 = 5854679515581645 / 4503599627370496"
  "lit 1.5 = 3 / 2"
  "lit 1.6 = 3602879701896397 / 2251799813685248"
  "lit 1.8 = 8106479329266893 / 4503599627370496"
  "lit 2.0 = 2"
  by (simp_all add: double_eval)

lemma to_double_lower:
  assumes "0 \<le> x"
  shows "x * (99 / 100) \<le> to_double x"
proof (cases "x = 0")
  case True
  then show ?thesis by (simp add: to_double_0)
next
  case False
  have "\<bar>to_double x - x\<bar> \<le> \<bar>x\<bar> / 2 ^ 53" by (rule to_double_error [OF False])
  moreover have "\<bar>x\<bar> / 2 ^ 53 \<le> x / 100" using assms by simp
  ultimately show ?thesis by linarith
qed

lemma to_double_upper:
  assumes "0 \<le> x"
  shows "to_double x \<le> x * (101 / 100)"
proof (cases "x = 0")
  case True
  then show ?thesis by (simp add: to_double_0)
next
  case False
  have "\<bar>to_double x - x\<bar> \<le> \<bar>x\<bar> / 2 ^ 53" by (rule to_double_error [OF False])
  moreover have "\<bar>x\<bar> / 2 ^ 53 \<le> x / 100" using assms by simp
  ultimately show ?thesis by linarith
qed

lemma lit_normal:
  "lit (1 / 10) = 3602879701896397 / 36028797018963968"
  "lit (1 / 4) = 1 / 4"
  "lit (3 / 10) = 5404319552844595 / 18014398509481984"
  "lit (1 / 2) = 1 / 2"
  "lit (7 / 10) = 3152519739159347 / 4503599627370496"
  "lit (4 / 5) = 3602879701896397 / 4503599627370496"
  "lit 1 = 1"
  "lit (11 / 10) = 2476979795053773 / 2251799813685248"
  "lit (6 / 5) = 5404319552844595 / 4503599627370496"
  "lit (13 / 10) = 5854679515581645 / 4503599627370496"
  "lit (3 / 2) = 3 / 2"
  "lit (8 / 5) = 3602879701896397 / 2251799813685248"
  "lit (9 / 5) = 8106479329266893 / 4503599627370496"
  "lit 2 = 2"
  using lit_values by simp_all

lemmas lit_eval = lit_values lit_normal

section \<open>What each part of the engine returns\<close>

lemma try_catch_returns: "\<exists>v. try_catch b fallback = Returned v"
  by (cases b) (simp_all add: try_catch_def)

lemma dynamicPoints_value:
  assumes "challenges_single sb cid = Returned (Some ch)"
    and "teams_count sb = Returned (Some n)" "n \<noteq> 0"
    and "solves_count sb cid = Returned k"
  shows "calculateDynamicPoints sb cid =
     Returned
       (Math_max
          (Math_round
             (num_times
                (num_times
                   (num_times
                      (num_times (Num (points_or_100 (points ch)))
                         (Num (rarity (js_divide (real (case k of None \<Rightarrow> 0 | Some j \<Rightarrow> j))
                                         (real n)))))
                      (lookup_or difficultyMultiplier (difficulty ch) (lit 1.0)))
                   (lookup_or categoryMultiplier (category ch) (lit 1.0)))
                (Num (if daily ch = Some True then lit 1.5 else lit 1.0))))
          (Math_round (num_times (Num (points_or_100 (points ch))) (Num (lit 0.3)))))"
  unfolding calculateDynamicPoints_def calculateDynamicPoints_try_def try_catch_def await_def
    Let_def
  using assms by (simp only: outcome.case option.case if_False)

lemma dynamicPoints_no_teams:
  assumes "challenges_single sb cid = Returned (Some ch)"
    and "teams_count sb = Returned None \<or> teams_count sb = Returned (Some 0)"
    and "solves_count sb cid = Returned k"
  shows "calculateDynamicPoints sb cid = Returned (Num (points_or_100 (points ch)))"
  unfolding calculateDynamicPoints_def calculateDynamicPoints_try_def try_catch_def await_def
    Let_def
  using assms by (auto simp only: outcome.case option.case if_True simp_thms)

lemma dynamicPoints_missing:
  assumes "challenges_single sb cid = Returned None"
  shows "calculateDynamicPoints sb cid = Returned (Num 0)"
  unfolding calculateDynamicPoints_def calculateDynamicPoints_try_def try_catch_def await_def
  using assms by (simp only: outcome.case option.case)

lemma dynamicPoints_thrown:
  assumes "challenges_single sb cid = Raised \<or>
           challenges_single sb cid = Returned (Some ch) \<and>
           (teams_count sb = Raised \<or> solves_count sb cid = Raised)"
  shows "calculateDynamicPoints sb cid = Returned (Num 100)"
  using assms
  by (auto simp: calculateDynamicPoints_def calculateDynamicPoints_try_def try_catch_def
        await_def Let_def split: outcome.splits)

lemma dynamicPoints_returns: "\<exists>v. calculateDynamicPoints sb cid = Returned v"
  unfolding calculateDynamicPoints_def by (rule try_catch_returns)

lemma firstBloodBonus_first:
  assumes "solves_first sb cid = Returned None" and "settings_latest sb = Returned cfg"
  shows "calculateFirstBloodBonus sb cid tid =
           Returned \<lparr>fb_points = bonus_or_50 cfg, fb_isFirstBlood = True\<rparr>"
  using assms
  by (simp add: calculateFirstBloodBonus_def calculateFirstBloodBonus_try_def try_catch_def
        await_def)

lemma firstBloodBonus_later:
  assumes "solves_first sb cid = Returned (Some s)"
  shows "calculateFirstBloodBonus sb cid tid = Returned \<lparr>fb_points = 0, fb_isFirstBlood = False\<rparr>"
  using assms
  by (simp add: calculateFirstBloodBonus_def calculateFirstBloodBonus_try_def try_catch_def
        await_def)

lemma firstBloodBonus_nonneg:
  assumes "bonus_not_negative sb"
  shows "\<exists>fb. calculateFirstBloodBonus sb cid tid = Returned fb \<and> 0 \<le> fb_points fb"
  using assms
  by (auto simp: calculateFirstBloodBonus_def calculateFirstBloodBonus_try_def try_catch_def
        await_def Let_def bonus_not_negative_def bonus_or_50_def
        split: outcome.splits option.splits)

lemma speedBonus_nonneg: "\<exists>v. calculateSpeedBonus r s d = Returned v \<and> 0 \<le> v"
  by (cases r; cases s; cases "thresholds_for d")
     (simp_all add: calculateSpeedBonus_def calculateSpeedBonus_try_def try_catch_def Let_def)

lemma totalScore_value:
  assumes "challenges_single sb cid = Returned challenge"
    and "calculateDynamicPoints sb cid = Returned dyn"
    and "calculateFirstBloodBonus sb cid tid = Returned fb"
    and "calculateSpeedBonus
           (case challenge of
              None \<Rightarrow> solveTime
            | Some ch \<Rightarrow> (case created_at ch of None \<Rightarrow> solveTime | Some t \<Rightarrow> t))
           solveTime
           (case challenge of
              None \<Rightarrow> ''medium''
            | Some ch \<Rightarrow> string_or (difficulty ch) ''medium'') = Returned sp"
  shows "total_of (calculateTotalScore sb cid tid teamSize solveTime) =
           Some (num_plus
                   (num_plus
                      (Math_round (num_times dyn (Num (calculateTeamSizeModifier teamSize 4))))
                      (Num (fb_points fb)))
                   (Num sp))"
    and "base_of (calculateTotalScore sb cid tid teamSize solveTime) =
           Some (case challenge of None \<Rightarrow> 100 | Some ch \<Rightarrow> points_or_100 (points ch))"
  using assms
  by (simp_all add: total_of_def base_of_def calculateTotalScore_def calculateTotalScore_try_def
        try_catch_def await_def Let_def)

section \<open>The example stores, evaluated\<close>

lemmas product_eval =
  points_or_100_def rarity_def lookup_or_def get_property_def Object_prototype_def
  difficultyMultiplier_def categoryMultiplier_def double_eval

lemmas speed_eval =
  calculateSpeedBonus_def calculateSpeedBonus_try_def try_catch_def thresholds_for_def
  get_property_def Object_prototype_def speedThresholds_def string_or_def double_eval

lemma fresh_reads:
  "challenges_single (connect db_fresh) ''c1'' = Returned (Some ch_hard)"
  "challenges_single (connect db_fresh) ''nope'' = Returned None"
  "teams_count (connect db_fresh) = Returned (Some 2)"
  "solves_count (connect db_fresh) ''c1'' = Returned (Some 0)"
  "solves_first (connect db_fresh) ''c1'' = Returned None"
  "solves_first (connect db_fresh) ''nope'' = Returned None"
  "settings_latest (connect db_fresh) = Returned None"
  by (simp_all add: connect_def db_fresh_def ch_hard_def solves_of_def)

lemma product_hard_crypto:
  "Math_max
     (Math_round
        (num_times
           (num_times
              (num_times
                 (num_times (Num (points_or_100 (points ch_hard)))
                    (Num (rarity (js_divide (real (case Some 0 of None \<Rightarrow> 0 | Some j \<Rightarrow> j))
                                    (real 2)))))
                 (lookup_or difficultyMultiplier (difficulty ch_hard) (lit 1.0)))
              (lookup_or categoryMultiplier (category ch_hard) (lit 1.0)))
           (Num (if daily ch_hard = Some True then lit 1.5 else lit 1.0))))
     (Math_round (num_times (Num (points_or_100 (points ch_hard))) (Num (lit 0.3))))
   = Num 384"
  by (simp add: ch_hard_def product_eval)

lemma dynamicPoints_fresh: "calculateDynamicPoints (connect db_fresh) ''c1'' = Returned (Num 384)"
proof -
  have n: "(2::nat) \<noteq> 0" by simp
  show ?thesis
    unfolding dynamicPoints_value [OF fresh_reads(1) fresh_reads(3) n fresh_reads(4)]
    by (simp only: product_hard_crypto)
qed

lemma firstBloodBonus_fresh:
  "calculateFirstBloodBonus (connect db_fresh) ''c1'' tid =
     Returned \<lparr>fb_points = 50, fb_isFirstBlood = True\<rparr>"
  unfolding firstBloodBonus_first [OF fresh_reads(5) fresh_reads(7)]
  by (simp add: bonus_or_50_def)

lemma speedBonus_hard_half_hour:
  "calculateSpeedBonus
     (case created_at ch_hard of None \<Rightarrow> Time 1800000 | Some t \<Rightarrow> t) (Time 1800000)
     (string_or (difficulty ch_hard) ''medium'') = Returned 25"
  by (simp add: ch_hard_def speed_eval)

lemma modifier_values:
  "calculateTeamSizeModifier 1 4 = 1"
  "calculateTeamSizeModifier 2 4 = 2589569785738035 / 2251799813685248"
  "calculateTeamSizeModifier 4 4 = 1"
  by (simp_all add: calculateTeamSizeModifier_def double_eval)

lemma total_fresh_two:
  "total_of (calculateTotalScore (connect db_fresh) ''c1'' ''alpha'' 2 (Time 1800000))
     = Some (Num 517)"
proof -
  have sp: "calculateSpeedBonus
     (case Some ch_hard of
        None \<Rightarrow> Time 1800000
      | Some ch \<Rightarrow> (case created_at ch of None \<Rightarrow> Time 1800000 | Some t \<Rightarrow> t))
     (Time 1800000)
     (case Some ch_hard of None \<Rightarrow> ''medium'' | Some ch \<Rightarrow> string_or (difficulty ch) ''medium'')
     = Returned 25"
    using speedBonus_hard_half_hour by simp
  show ?thesis
    unfolding totalScore_value(1) [OF fresh_reads(1) dynamicPoints_fresh firstBloodBonus_fresh sp]
      modifier_values
    by (simp add: double_eval)
qed

lemma total_fresh_one:
  "total_of (calculateTotalScore (connect db_fresh) ''c1'' ''alpha'' 1 (Time 1800000))
     = Some (Num 459)"
proof -
  have sp: "calculateSpeedBonus
     (case Some ch_hard of
        None \<Rightarrow> Time 1800000
      | Some ch \<Rightarrow> (case created_at ch of None \<Rightarrow> Time 1800000 | Some t \<Rightarrow> t))
     (Time 1800000)
     (case Some ch_hard of None \<Rightarrow> ''medium'' | Some ch \<Rightarrow> string_or (difficulty ch) ''medium'')
     = Returned 25"
    using speedBonus_hard_half_hour by simp
  show ?thesis
    unfolding totalScore_value(1) [OF fresh_reads(1) dynamicPoints_fresh firstBloodBonus_fresh sp]
      modifier_values
    by (simp add: double_eval)
qed

lemma speedBonus_no_release:
  "calculateSpeedBonus
     (case None :: challenge_row option of
        None \<Rightarrow> Time m
      | Some ch \<Rightarrow> (case created_at ch of None \<Rightarrow> Time m | Some t \<Rightarrow> t))
     (Time m)
     (case None :: challenge_row option of
        None \<Rightarrow> ''medium''
      | Some ch \<Rightarrow> string_or (difficulty ch) ''medium'') = Returned 25"
  by (simp add: speed_eval)

lemma base_missing:
  "base_of (calculateTotalScore (connect db_fresh) ''nope'' ''beta'' 1 (Time 0)) = Some 100"
proof -
  have fb: "calculateFirstBloodBonus (connect db_fresh) ''nope'' ''beta'' =
              Returned \<lparr>fb_points = bonus_or_50 None, fb_isFirstBlood = True\<rparr>"
    by (rule firstBloodBonus_first [OF fresh_reads(6) fresh_reads(7)])
  show ?thesis
    unfolding totalScore_value(2)
      [OF fresh_reads(2) dynamicPoints_missing [OF fresh_reads(2)] fb speedBonus_no_release]
    by simp
qed

lemma unreadable_reads:
  "challenges_single sb_unreadable ''c1'' = Returned None"
  "solves_first sb_unreadable ''c1'' = Returned (Some solve_u1)"
  by (simp_all add: sb_unreadable_def connect_def db_solved_def db_fresh_def solves_of_def
        solve_u1_def)

lemma total_unreadable:
  "base_of (calculateTotalScore sb_unreadable ''c1'' ''beta'' 1 (Time 1800000)) = Some 100"
  "total_of (calculateTotalScore sb_unreadable ''c1'' ''beta'' 1 (Time 1800000)) = Some (Num 25)"
proof -
  note v = totalScore_value
      [OF unreadable_reads(1) dynamicPoints_missing [OF unreadable_reads(1)]
          firstBloodBonus_later [OF unreadable_reads(2)] speedBonus_no_release]
  show "base_of (calculateTotalScore sb_unreadable ''c1'' ''beta'' 1 (Time 1800000)) = Some 100"
    unfolding v(2) by simp
  show "total_of (calculateTotalScore sb_unreadable ''c1'' ''beta'' 1 (Time 1800000))
          = Some (Num 25)"
    unfolding v(1) modifier_values by (simp add: double_eval)
qed

lemma counts_throw_reads:
  "challenges_single sb_counts_throw ''c2'' = Returned (Some ch_big)"
  "teams_count sb_counts_throw = Raised"
  "solves_first sb_counts_throw ''c2'' =
     Returned (Some \<lparr>user_id = ''u1'', team_name = ''alpha'', challenge_id = ''c2'',
                      solve_points = 1000\<rparr>)"
  by (simp_all add: sb_counts_throw_def connect_def db_big_def db_fresh_def ch_big_def
        solves_of_def)

lemma dynamicPoints_counts_throw:
  "calculateDynamicPoints sb_counts_throw ''c2'' = Returned (Num 100)"
  using counts_throw_reads(1,2) by (intro dynamicPoints_thrown [of _ _ ch_big]) simp

lemma speedBonus_easy_hundred_hours:
  "calculateSpeedBonus
     (case Some ch_big of
        None \<Rightarrow> Time 360000000
      | Some ch \<Rightarrow> (case created_at ch of None \<Rightarrow> Time 360000000 | Some t \<Rightarrow> t))
     (Time 360000000)
     (case Some ch_big of None \<Rightarrow> ''medium'' | Some ch \<Rightarrow> string_or (difficulty ch) ''medium'')
     = Returned 0"
  by (simp add: ch_big_def speed_eval)

lemma total_counts_throw:
  "base_of (calculateTotalScore sb_counts_throw ''c2'' ''beta'' 1 (Time 360000000)) = Some 1000"
  "total_of (calculateTotalScore sb_counts_throw ''c2'' ''beta'' 1 (Time 360000000))
     = Some (Num 100)"
proof -
  note v = totalScore_value
      [OF counts_throw_reads(1) dynamicPoints_counts_throw
          firstBloodBonus_later [OF counts_throw_reads(3)] speedBonus_easy_hundred_hours]
  show "base_of (calculateTotalScore sb_counts_throw ''c2'' ''beta'' 1 (Time 360000000))
          = Some 1000"
    unfolding v(2) by (simp add: ch_big_def points_or_100_def)
  show "total_of (calculateTotalScore sb_counts_throw ''c2'' ''beta'' 1 (Time 360000000))
          = Some (Num 100)"
    unfolding v(1) modifier_values by (simp add: double_eval)
qed

lemma negative_bonus_reads:
  "challenges_single (connect db_negative_bonus) ''c1'' = Returned (Some ch_hard)"
  "teams_count (connect db_negative_bonus) = Returned (Some 2)"
  "solves_count (connect db_negative_bonus) ''c1'' = Returned (Some 0)"
  "solves_first (connect db_negative_bonus) ''c1'' = Returned None"
  "settings_latest (connect db_negative_bonus) = Returned (Some (settings_bonus (- 500)))"
  by (simp_all add: connect_def db_negative_bonus_def db_fresh_def ch_hard_def solves_of_def)

lemma total_negative_bonus:
  "base_of (calculateTotalScore (connect db_negative_bonus) ''c1'' ''beta'' 1 (Time 1800000))
     = Some 100"
  "total_of (calculateTotalScore (connect db_negative_bonus) ''c1'' ''beta'' 1 (Time 1800000))
     = Some (Num (- 91))"
proof -
  have n: "(2::nat) \<noteq> 0" by simp
  have dyn: "calculateDynamicPoints (connect db_negative_bonus) ''c1'' = Returned (Num 384)"
    unfolding dynamicPoints_value
      [OF negative_bonus_reads(1) negative_bonus_reads(2) n negative_bonus_reads(3)]
    by (simp only: product_hard_crypto)
  have sp: "calculateSpeedBonus
     (case Some ch_hard of
        None \<Rightarrow> Time 1800000
      | Some ch \<Rightarrow> (case created_at ch of None \<Rightarrow> Time 1800000 | Some t \<Rightarrow> t))
     (Time 1800000)
     (case Some ch_hard of None \<Rightarrow> ''medium'' | Some ch \<Rightarrow> string_or (difficulty ch) ''medium'')
     = Returned 25"
    using speedBonus_hard_half_hour by simp
  note v = totalScore_value
      [OF negative_bonus_reads(1) dyn
          firstBloodBonus_first [OF negative_bonus_reads(4) negative_bonus_reads(5)] sp]
  show "base_of (calculateTotalScore (connect db_negative_bonus) ''c1'' ''beta'' 1 (Time 1800000))
     = Some 100"
    unfolding v(2) by (simp add: ch_hard_def points_or_100_def)
  show "total_of (calculateTotalScore (connect db_negative_bonus) ''c1'' ''beta'' 1 (Time 1800000))
     = Some (Num (- 91))"
    unfolding v(1) modifier_values
    by (simp add: bonus_or_50_def settings_bonus_def double_eval)
qed

lemma ctor_reads:
  "challenges_single (connect db_ctor) ''c4'' = Returned (Some ch_ctor)"
  "teams_count (connect db_ctor) = Returned (Some 2)"
  "solves_count (connect db_ctor) ''c4'' = Returned (Some 0)"
  "solves_first (connect db_ctor) ''c4'' = Returned None"
  "settings_latest (connect db_ctor) = Returned None"
  by (simp_all add: connect_def db_ctor_def db_fresh_def ch_ctor_def solves_of_def)

lemma dynamicPoints_ctor: "calculateDynamicPoints (connect db_ctor) ''c4'' = Returned NaN"
proof -
  have n: "(2::nat) \<noteq> 0" by simp
  have c: "lookup_or categoryMultiplier (category ch_ctor) (lit 1.0) = NaN"
    by (simp add: ch_ctor_def lookup_or_def get_property_def categoryMultiplier_def
          Object_prototype_def)
  show ?thesis
    unfolding dynamicPoints_value [OF ctor_reads(1) ctor_reads(2) n ctor_reads(3)] c
    by (simp add: num_times_def Math_round_def Math_max_def split: number.splits)
qed

lemma total_ctor:
  "base_of (calculateTotalScore (connect db_ctor) ''c4'' ''alpha'' 1 (Time 1800000)) = Some 100"
  "total_of (calculateTotalScore (connect db_ctor) ''c4'' ''alpha'' 1 (Time 1800000)) = Some NaN"
proof -
  have sp: "calculateSpeedBonus
     (case Some ch_ctor of
        None \<Rightarrow> Time 1800000
      | Some ch \<Rightarrow> (case created_at ch of None \<Rightarrow> Time 1800000 | Some t \<Rightarrow> t))
     (Time 1800000)
     (case Some ch_ctor of None \<Rightarrow> ''medium'' | Some ch \<Rightarrow> string_or (difficulty ch) ''medium'')
     = Returned 25"
    by (simp add: ch_ctor_def speed_eval)
  note v = totalScore_value
      [OF ctor_reads(1) dynamicPoints_ctor
          firstBloodBonus_first [OF ctor_reads(4) ctor_reads(5)] sp]
  show "base_of (calculateTotalScore (connect db_ctor) ''c4'' ''alpha'' 1 (Time 1800000))
          = Some 100"
    unfolding v(2) by (simp add: ch_ctor_def points_or_100_def)
  show "total_of (calculateTotalScore (connect db_ctor) ''c4'' ''alpha'' 1 (Time 1800000))
          = Some NaN"
    unfolding v(1) by (simp add: num_times_def num_plus_def Math_round_def)
qed

section \<open>Bounds on the parts of a score\<close>

lemma js_times_nonneg:
  assumes "0 \<le> a" "0 \<le> b"
  shows "0 \<le> js_times a b"
  unfolding js_times_def using assms by (intro to_double_nonneg) simp

lemma js_times_mono:
  assumes "0 \<le> a" "a \<le> a'" "0 \<le> b"
  shows "js_times a b \<le> js_times a' b"
  unfolding js_times_def using assms
  by (intro to_double_mono mult_right_mono) simp_all

lemma js_times_mono_right:
  assumes "0 \<le> a" "0 \<le> b" "b \<le> b'"
  shows "js_times a b \<le> js_times a b'"
  unfolding js_times_def using assms
  by (intro to_double_mono mult_left_mono) simp_all

lemma js_times_double:
  assumes "0 \<le> a" "0 \<le> b"
  shows "to_double (js_times a b) = js_times a b"
  unfolding js_times_def using assms by (intro to_double_idem) simp

lemma js_times_grows:
  assumes "0 \<le> x" "to_double x = x" "1 \<le> b"
  shows "x \<le> js_times x b"
proof -
  have "x \<le> x * b" using assms(1,3) mult_left_mono [of 1 b x] by simp
  then have "to_double x \<le> to_double (x * b)"
    using assms(1) by (intro to_double_mono)
  then show ?thesis
    unfolding js_times_def assms(2) .
qed

lemma js_plus_grows:
  assumes "0 \<le> x" "to_double x = x" "0 \<le> b"
  shows "x \<le> js_plus x b"
proof -
  have "to_double x \<le> to_double (x + b)"
    using assms(1,3) by (intro to_double_mono) simp_all
  then show ?thesis
    unfolding js_plus_def assms(2) .
qed

lemma js_plus_double:
  assumes "0 \<le> a" "0 \<le> b"
  shows "to_double (js_plus a b) = js_plus a b"
  unfolding js_plus_def using assms by (intro to_double_idem) simp

lemma rarity_ge: "lit 0.7 \<le> rarity r"
  by (simp add: rarity_def lit_eval)


lemma lookup_or_unlisted: "unlisted table k \<Longrightarrow> lookup_or table k dflt = Num dflt"
  by (cases k) (simp_all add: unlisted_def lookup_or_def get_property_def)

lemma lookup_difficulty_plain:
  assumes "plain_key k"
  shows "lookup_or difficultyMultiplier k (lit 1.0) = Num (spec_multiplier difficultyMultiplier k)"
    and "1 \<le> spec_multiplier difficultyMultiplier k"
  using assms
  by (cases k; simp add: plain_key_def lookup_or_def get_property_def spec_multiplier_def
        difficultyMultiplier_def lit_eval)+

lemma lookup_category_plain:
  assumes "plain_key k"
  shows "lookup_or categoryMultiplier k (lit 1.0) = Num (spec_multiplier categoryMultiplier k)"
    and "1 \<le> spec_multiplier categoryMultiplier k"
  using assms
  by (cases k; simp add: plain_key_def lookup_or_def get_property_def spec_multiplier_def
        categoryMultiplier_def lit_eval)+

lemma daily_ge: "1 \<le> (if dly = Some True then lit 1.5 else lit 1.0)"
  by (simp add: lit_eval)

lemma teamSizeModifier_ge: "lit 0.7 \<le> calculateTeamSizeModifier teamSize maxTeamSize"
  unfolding calculateTeamSizeModifier_def Let_def
  by (simp only: max.cobounded1 split: if_split) (simp add: lit_eval)


lemma floor_half_mono:
  fixes x y :: real
  assumes "x \<le> y"
  shows "\<lfloor>x + 1 / 2\<rfloor> \<le> \<lfloor>y + 1 / 2\<rfloor>"
  using assms by (intro floor_mono) simp

lemma seven_tenths_le:
  assumes "1 \<le> p"
  shows "\<lfloor>js_times (of_int p) (lit 0.7) + 1 / 2\<rfloor> \<le> p"
proof -
  have c: "lit 0.7 \<le> 71 / 100" "0 \<le> lit 0.7" by (simp_all add: lit_eval)
  have p0: "0 \<le> real_of_int p" and p1: "1 \<le> real_of_int p" using assms by simp_all
  have a: "real_of_int p * lit 0.7 \<le> real_of_int p * (71 / 100)"
    using c(1) p0 by (rule mult_left_mono)
  have "0 \<le> real_of_int p * lit 0.7"
    using p0 c(2) by simp
  then have b: "to_double (real_of_int p * lit 0.7) \<le> real_of_int p * lit 0.7 * (101 / 100)"
    by (rule to_double_upper)
  have "js_times (of_int p) (lit 0.7) + 1 / 2 < real_of_int p + 1"
    unfolding js_times_def using a b p1 by linarith
  then show ?thesis by linarith
qed

lemma three_tenths_after_two_cuts:
  assumes "1 \<le> p"
  shows "\<lfloor>js_times (of_int p) (lit 0.3) + 1 / 2\<rfloor>
         \<le> \<lfloor>js_times (of_int \<lfloor>js_times (of_int p) (lit 0.7) + 1 / 2\<rfloor>) (lit 0.7) + 1 / 2\<rfloor>"
proof -
  consider "p = 1" | "p = 2" | "3 \<le> p" using assms by linarith
  then show ?thesis
  proof cases
    case 1
    have "js_times 1 (lit 0.7) = 3152519739159347 / 4503599627370496"
      by (simp add: double_eval)
    then show ?thesis
      unfolding 1 by (simp add: double_eval)
  next
    case 2
    have a: "js_times 2 (lit 0.7) = 3152519739159347 / 2251799813685248"
      by (simp add: double_eval)
    have b: "js_times 2 (lit 0.3) = 5404319552844595 / 9007199254740992"
      by (simp add: double_eval)
    have c: "js_times 1 (lit 0.7) = 3152519739159347 / 4503599627370496"
      by (simp add: double_eval)
    show ?thesis
      unfolding 2 by (simp add: a b c)
  next
    case 3
    define q where "q = js_times (of_int p) (lit 0.7)"
    define A where "A = \<lfloor>q + 1 / 2\<rfloor>"
    define t where "t = js_times (of_int A) (lit 0.7)"
    define f where "f = js_times (of_int p) (lit 0.3)"
    have c7: "69 / 100 \<le> lit 0.7" "0 \<le> lit 0.7" by (simp_all add: lit_eval)
    have c3: "lit 0.3 \<le> 31 / 100" "0 \<le> lit 0.3" by (simp_all add: lit_eval)
    have p0: "0 \<le> real_of_int p" using 3 by simp
    have "real_of_int p * (69 / 100) \<le> real_of_int p * lit 0.7"
      using c7(1) p0 by (rule mult_left_mono)
    moreover have "real_of_int p * lit 0.7 * (99 / 100) \<le> q"
      unfolding q_def js_times_def using p0 c7(2) by (intro to_double_lower) simp
    ultimately have q: "real_of_int p * (6831 / 10000) \<le> q" by linarith
    have q0: "0 \<le> q" using q p0 by linarith
    have A0: "0 \<le> A" unfolding A_def using q0 by simp
    have A: "q - 1 / 2 < real_of_int A" unfolding A_def by linarith
    have A0': "0 \<le> real_of_int A" using A0 by simp
    have "real_of_int A * (69 / 100) \<le> real_of_int A * lit 0.7"
      using c7(1) A0' by (rule mult_left_mono)
    moreover have "real_of_int A * lit 0.7 * (99 / 100) \<le> t"
      unfolding t_def js_times_def using A0' c7(2) by (intro to_double_lower) simp
    ultimately have t: "real_of_int A * (6831 / 10000) \<le> t" by linarith
    have "real_of_int p * lit 0.3 \<le> real_of_int p * (31 / 100)"
      using c3(1) p0 by (rule mult_left_mono)
    moreover have "f \<le> real_of_int p * lit 0.3 * (101 / 100)"
      unfolding f_def js_times_def using p0 c3(2) by (intro to_double_upper) simp
    ultimately have f: "f \<le> real_of_int p * (3131 / 10000)" by linarith
    have F: "real_of_int \<lfloor>f + 1 / 2\<rfloor> \<le> f + 1 / 2" by linarith
    have R: "t + 1 / 2 < real_of_int \<lfloor>t + 1 / 2\<rfloor> + 1" by linarith
    have p3: "3 \<le> real_of_int p" using 3 by simp
    have "real_of_int \<lfloor>f + 1 / 2\<rfloor> < real_of_int \<lfloor>t + 1 / 2\<rfloor> + 1"
      using q A t f F R p3 by linarith
    then have "\<lfloor>f + 1 / 2\<rfloor> \<le> \<lfloor>t + 1 / 2\<rfloor>" by linarith
    then show ?thesis
      unfolding f_def t_def A_def q_def .
  qed
qed

section \<open>The total and its parts\<close>

text \<open>
  C4. Every scoring computation returns a breakdown, and the total recorded in it is the
  rounded product of the recorded dynamic points and the recorded team-size modifier,
  plus the recorded first-blood bonus, plus the recorded speed bonus, each operation
  being the one the code performs on doubles. This holds on the path through the
  computation and on the fallback of its \<open>catch\<close>. When the recorded dynamic points are
  \<open>NaN\<close>, the recorded total and the recomputed one are both \<open>NaN\<close>.
\<close>

theorem total_recomputes_from_breakdown:
  "\<exists>r. calculateTotalScore sb challengeId teamId teamSize solveTime = Returned r \<and>
       totalPoints r =
         num_plus
           (num_plus (Math_round (num_times (dynamicPoints r) (Num (teamSizeModifier r))))
              (Num (firstBloodBonus r)))
           (Num (speedBonus r))"
proof (cases "calculateTotalScore_try sb challengeId teamId teamSize solveTime")
  case Raised
  have "num_plus (num_plus (Math_round (num_times (Num 100) (Num (lit 1.0)))) (Num 0)) (Num 0)
          = Num 100"
    by (simp add: double_eval to_double_numeral)
  then show ?thesis
    using Raised by (simp add: calculateTotalScore_def try_catch_def)
next
  case (Returned r)
  then have "totalPoints r =
         num_plus
           (num_plus (Math_round (num_times (dynamicPoints r) (Num (teamSizeModifier r))))
              (Num (firstBloodBonus r)))
           (Num (speedBonus r))"
    by (auto simp: calculateTotalScore_try_def await_def Let_def split: outcome.splits)
  then show ?thesis
    using Returned by (simp add: calculateTotalScore_def try_catch_def)
qed

section \<open>The team-size modifier\<close>

text \<open>
  C2. The claim: for a team size and a maximum team size of at least 1, the modifier lies
  in (0, 1], is exactly 1.0 for a team of one, never rises as the team grows, and never
  falls below 0.7. The code gives a team of two, with the maximum at four, the modifier
  1.15 (the double the literal \<open>1.15\<close> denotes): above 1, and above the 1.0 of a team of
  one; a team of the maximum size is given 1.0, no penalty, where the comment in the code
  promises the largest one.
\<close>

theorem teamSizeModifier_two_of_four:
  "calculateTeamSizeModifier 2 4 = lit 1.15 \<and> 1 < calculateTeamSizeModifier 2 4 \<and>
   calculateTeamSizeModifier 1 4 = 1 \<and> calculateTeamSizeModifier 4 4 = 1"
proof -
  have "lit 1.15 = 2589569785738035 / 2251799813685248"
    by (simp add: double_eval)
  then show ?thesis
    unfolding modifier_values by simp
qed

section \<open>The speed bonus\<close>

text \<open>
  C3, as the claim states it, fails: a solve recorded one hour before the release of an
  easy challenge is given the fast bonus of 25, not 0.
\<close>

theorem speedBonus_before_release_counterexample:
  "calculateSpeedBonus (Time 3600000) (Time 0) ''easy'' = Returned 25"
  by (simp add: calculateSpeedBonus_def calculateSpeedBonus_try_def try_catch_def
        thresholds_for_def get_property_def speedThresholds_def double_eval)

lemma thresholds_for_plain:
  assumes "challengeDifficulty \<notin> set Object_prototype"
  shows "\<exists>t. thresholds_for challengeDifficulty = Some t \<and> 0 < fast t"
  using assms
  by (simp add: thresholds_for_def get_property_def speedThresholds_def)

text \<open>
  C3, amended. For every release time and solve time with the solve before the release,
  and for every difficulty that is not the name of a property every object inherits,
  \<open>calculateSpeedBonus\<close> returns 25 and does not throw: a number of hours that is not
  above zero is at most the fast threshold of every row.
\<close>

theorem speedBonus_before_release:
  assumes "solveMs < releaseMs" and "challengeDifficulty \<notin> set Object_prototype"
  shows "calculateSpeedBonus (Time releaseMs) (Time solveMs) challengeDifficulty = Returned 25"
proof -
  have "real_of_int solveMs - real_of_int releaseMs \<le> 0" using assms(1) by simp
  then have "js_minus (of_int solveMs) (of_int releaseMs) \<le> 0"
    unfolding js_minus_def by (rule to_double_nonpos)
  then have "js_minus (of_int solveMs) (of_int releaseMs) / (1000 * 60 * 60) \<le> 0"
    by (simp add: divide_le_0_iff)
  then have h: "js_divide (js_minus (of_int solveMs) (of_int releaseMs)) (1000 * 60 * 60) \<le> 0"
    unfolding js_divide_def by (rule to_double_nonpos)
  obtain t where t: "thresholds_for challengeDifficulty = Some t" "0 < fast t"
    using thresholds_for_plain [OF assms(2)] by blast
  show ?thesis
    using h t
    by (simp add: calculateSpeedBonus_def calculateSpeedBonus_try_def try_catch_def Let_def)
qed

theorem speedBonus_before_release_witness:
  "(1000::int) < 5000 \<and> ''expert'' \<notin> set Object_prototype \<and>
   calculateSpeedBonus (Time 5000) (Time 1000) ''expert'' = Returned 25"
proof -
  have a: "''expert'' \<notin> set Object_prototype" by (simp add: Object_prototype_def)
  show ?thesis
    using a speedBonus_before_release [of 1000 5000 "''expert''"] by simp
qed

section \<open>The first-blood bonus\<close>

text \<open>
  C7. The claim: the first solve of a challenge is given the configured first-blood bonus,
  50 when none is configured, and in particular a configured bonus of 0 gives 0. With no
  solve of the challenge in the store and a configured bonus of 0, the code returns 50,
  because \<open>||\<close> takes the configured 0 for a missing value.
\<close>

theorem firstBloodBonus_configured_zero:
  "solves_of db_zero_bonus ''c1'' = [] \<and>
   map first_blood_bonus (competition_settings db_zero_bonus) = [Some 0] \<and>
   calculateFirstBloodBonus (connect db_zero_bonus) ''c1'' ''alpha''
     = Returned \<lparr>fb_points = 50, fb_isFirstBlood = True\<rparr>"
  by (simp add: calculateFirstBloodBonus_def calculateFirstBloodBonus_try_def try_catch_def
        await_def connect_def solves_of_def db_zero_bonus_def db_fresh_def settings_bonus_def
        bonus_or_50_def)

section \<open>The dynamic points\<close>

lemma dynamicPoints_plain:
  assumes "challenges_single sb cid = Returned (Some ch)"
    and "teams_count sb = Returned (Some n)" "n \<noteq> 0"
    and "solves_count sb cid = Returned k"
    and "plain_key (difficulty ch)" "plain_key (category ch)"
  shows "calculateDynamicPoints sb cid =
     Returned
       (Num (max (of_int
                    \<lfloor>js_times
                       (js_times
                          (js_times
                             (js_times (points_or_100 (points ch))
                                (rarity (js_divide (real (case k of None \<Rightarrow> 0 | Some j \<Rightarrow> j))
                                           (real n))))
                             (spec_multiplier difficultyMultiplier (difficulty ch)))
                          (spec_multiplier categoryMultiplier (category ch)))
                       (if daily ch = Some True then lit 1.5 else lit 1.0) + 1 / 2\<rfloor>)
                 (of_int \<lfloor>js_times (points_or_100 (points ch)) (lit 0.3) + 1 / 2\<rfloor>)))"
  unfolding dynamicPoints_value [OF assms(1-4)]
    lookup_difficulty_plain(1) [OF assms(5)] lookup_category_plain(1) [OF assms(6)]
  by (simp add: num_times_def Math_round_def Math_max_def)


lemma product_ge:
  assumes "0 \<le> b" "lit 0.7 \<le> m" "1 \<le> d" "1 \<le> c" "1 \<le> e"
  shows "js_times b (lit 0.7) \<le> js_times (js_times (js_times (js_times b m) d) c) e"
proof -
  have c7: "0 \<le> lit 0.7" by (simp add: lit_eval)
  have m0: "0 \<le> m" using assms(2) c7 by linarith
  have d0: "0 \<le> d" and c0: "0 \<le> c" using assms(3,4) by linarith+
  have x1: "0 \<le> js_times b m" using assms(1) m0 by (rule js_times_nonneg)
  have x2: "0 \<le> js_times (js_times b m) d" using x1 d0 by (rule js_times_nonneg)
  have x3: "0 \<le> js_times (js_times (js_times b m) d) c" using x2 c0 by (rule js_times_nonneg)
  have "js_times b (lit 0.7) \<le> js_times b m"
    using assms(1) c7 assms(2) by (rule js_times_mono_right)
  also have "\<dots> \<le> js_times (js_times b m) d"
    using x1 js_times_double [OF assms(1) m0] assms(3) by (rule js_times_grows)
  also have "\<dots> \<le> js_times (js_times (js_times b m) d) c"
    using x2 js_times_double [OF x1 d0] assms(4) by (rule js_times_grows)
  also have "\<dots> \<le> js_times (js_times (js_times (js_times b m) d) c) e"
    using x3 js_times_double [OF x2 c0] assms(5) by (rule js_times_grows)
  finally show ?thesis .
qed

lemma dynamicPoints_lower:
  assumes ch: "challenges_single sb cid = Returned (Some ch)"
    and p: "points ch = Some p" "0 < p"
    and t: "teams_count sb \<noteq> Raised" and s: "solves_count sb cid \<noteq> Raised"
    and kd: "plain_key (difficulty ch)" and kc: "plain_key (category ch)"
  shows "\<exists>dyn. calculateDynamicPoints sb cid = Returned (Num dyn) \<and>
           of_int \<lfloor>js_times (of_int p) (lit 0.7) + 1 / 2\<rfloor> \<le> dyn"
proof -
  obtain totalTeams where tt: "teams_count sb = Returned totalTeams"
    using t by (cases "teams_count sb") auto
  obtain solveCount where sc: "solves_count sb cid = Returned solveCount"
    using s by (cases "solves_count sb cid") auto
  have base: "points_or_100 (points ch) = of_int p"
    using p by (simp add: points_or_100_def)
  have p1: "1 \<le> p" using p(2) by simp
  show ?thesis
  proof (cases "totalTeams = None \<or> totalTeams = Some 0")
    case True
    then have "teams_count sb = Returned None \<or> teams_count sb = Returned (Some 0)"
      using tt by auto
    then have "calculateDynamicPoints sb cid = Returned (Num (of_int p))"
      using dynamicPoints_no_teams [OF ch _ sc] base by simp
    moreover have "real_of_int \<lfloor>js_times (of_int p) (lit 0.7) + 1 / 2\<rfloor> \<le> of_int p"
      using seven_tenths_le [OF p1] by linarith
    ultimately show ?thesis by blast
  next
    case False
    then obtain n where n: "totalTeams = Some n" "n \<noteq> 0" by auto
    have tn: "teams_count sb = Returned (Some n)"
      using tt n by simp
    define x where "x =
      js_times
        (js_times
           (js_times
              (js_times (of_int p)
                 (rarity (js_divide (real (case solveCount of None \<Rightarrow> 0 | Some j \<Rightarrow> j))
                            (real n))))
              (spec_multiplier difficultyMultiplier (difficulty ch)))
           (spec_multiplier categoryMultiplier (category ch)))
        (if daily ch = Some True then lit 1.5 else lit 1.0)"
    define y where "y = \<lfloor>js_times (real_of_int p) (lit 0.3) + 1 / 2\<rfloor>"
    have val: "calculateDynamicPoints sb cid = Returned (Num (max (of_int \<lfloor>x + 1 / 2\<rfloor>) (of_int y)))"
      using dynamicPoints_plain [OF ch tn n(2) sc kd kc] unfolding base x_def y_def .
    have p0: "0 \<le> real_of_int p" using p(2) by simp
    have "js_times (of_int p) (lit 0.7) \<le> x"
      unfolding x_def
      using p0 rarity_ge lookup_difficulty_plain(2) [OF kd] lookup_category_plain(2) [OF kc]
        daily_ge
      by (rule product_ge)
    then have "\<lfloor>js_times (of_int p) (lit 0.7) + 1 / 2\<rfloor> \<le> \<lfloor>x + 1 / 2\<rfloor>"
      by (rule floor_half_mono)
    then have "real_of_int \<lfloor>js_times (of_int p) (lit 0.7) + 1 / 2\<rfloor>
               \<le> max (of_int \<lfloor>x + 1 / 2\<rfloor>) (of_int y)"
      by simp
    then show ?thesis using val by blast
  qed
qed






section \<open>The fallbacks of the dynamic points\<close>

lemma static_reads:
  "challenges_single (connect db_static) ''c1'' = Returned (Some ch_hard)"
  "teams_count (connect db_static) = Returned (Some 2)"
  "solves_count (connect db_static) ''c1'' = Returned (Some 0)"
  by (simp_all add: connect_def db_static_def db_fresh_def ch_hard_def solves_of_def)

lemma dynamicPoints_static: "calculateDynamicPoints (connect db_static) ''c1'' = Returned (Num 384)"
proof -
  have n: "(2::nat) \<noteq> 0" by simp
  show ?thesis
    unfolding dynamicPoints_value [OF static_reads(1) static_reads(2) n static_reads(3)]
    by (simp only: product_hard_crypto)
qed

text \<open>
  C6, as the claim states it, fails in three ways. For a challenge that cannot be read
  the function returns 0, while the same computation records the base value 100: 0 is
  neither the base value nor the result of a neutral multiplier. A settings row that
  turns dynamic scoring off changes nothing: the challenge of 100 points is still worth
  384. And a category that is the name of an inherited property is not replaced by the
  multiplier 1.0: the result is \<open>NaN\<close>.
\<close>

theorem dynamicPoints_fallbacks_counterexample:
  "calculateDynamicPoints (connect db_fresh) ''nope'' = Returned (Num 0) \<and>
   base_of (calculateTotalScore (connect db_fresh) ''nope'' ''beta'' 1 (Time 0)) = Some 100 \<and>
   map dynamic_scoring (competition_settings db_static) = [Some False] \<and>
   challenge_points db_static ''c1'' = 100 \<and>
   calculateDynamicPoints (connect db_static) ''c1'' = Returned (Num 384) \<and>
   challenges_single (connect db_ctor) ''c4'' = Returned (Some ch_ctor) \<and>
   category ch_ctor = Some ''constructor'' \<and>
   calculateDynamicPoints (connect db_ctor) ''c4'' = Returned NaN"
proof (intro conjI)
  show "calculateDynamicPoints (connect db_fresh) ''nope'' = Returned (Num 0)"
    using fresh_reads(2) by (rule dynamicPoints_missing)
  show "base_of (calculateTotalScore (connect db_fresh) ''nope'' ''beta'' 1 (Time 0)) = Some 100"
    by (rule base_missing)
  show "map dynamic_scoring (competition_settings db_static) = [Some False]"
    by (simp add: db_static_def)
  show "challenge_points db_static ''c1'' = 100"
    by (simp add: challenge_points_def db_static_def db_fresh_def ch_hard_def)
  show "calculateDynamicPoints (connect db_static) ''c1'' = Returned (Num 384)"
    by (rule dynamicPoints_static)
  show "challenges_single (connect db_ctor) ''c4'' = Returned (Some ch_ctor)"
    by (rule ctor_reads(1))
  show "category ch_ctor = Some ''constructor''"
    by (simp add: ch_ctor_def)
  show "calculateDynamicPoints (connect db_ctor) ''c4'' = Returned NaN"
    by (rule dynamicPoints_ctor)
qed

text \<open>
  C6, amended. \<open>calculateDynamicPoints\<close> never throws. It returns 0 when the challenge
  cannot be read. When the challenge is read, the count of solves returns, and the count
  of eligible teams is 0 or missing, it returns the base value unchanged (the points of
  the challenge, or 100 when they are missing or zero). When the challenge is read, the
  count of solves returns, the count of eligible teams is above 0, the difficulty and
  the category are each missing, or not listed and not the name of an inherited
  property, and the daily flag is missing, each of the three enters the product as the
  multiplier 1.0. The settings, and so any switch for dynamic scoring in them, have no
  influence on the result.
\<close>

theorem dynamicPoints_fallbacks:
  "(\<exists>v. calculateDynamicPoints sb cid = Returned v) \<and>
   (challenges_single sb cid = Returned None \<longrightarrow>
      calculateDynamicPoints sb cid = Returned (Num 0)) \<and>
   (challenges_single sb cid = Returned (Some ch) \<and> solves_count sb cid = Returned k \<and>
    (teams_count sb = Returned None \<or> teams_count sb = Returned (Some 0)) \<longrightarrow>
      calculateDynamicPoints sb cid = Returned (Num (points_or_100 (points ch)))) \<and>
   (challenges_single sb cid = Returned (Some ch) \<and> solves_count sb cid = Returned k \<and>
    teams_count sb = Returned (Some n) \<and> n \<noteq> 0 \<and>
    unlisted difficultyMultiplier (difficulty ch) \<and> unlisted categoryMultiplier (category ch) \<and>
    daily ch = None \<longrightarrow>
      calculateDynamicPoints sb cid =
        Returned
          (Math_max
             (Math_round
                (num_times
                   (num_times
                      (num_times
                         (num_times (Num (points_or_100 (points ch)))
                            (Num (rarity
                                    (js_divide (real (case k of None \<Rightarrow> 0 | Some j \<Rightarrow> j))
                                       (real n)))))
                         (Num (lit 1.0)))
                      (Num (lit 1.0)))
                   (Num (lit 1.0))))
             (Math_round (num_times (Num (points_or_100 (points ch))) (Num (lit 0.3)))))) \<and>
   calculateDynamicPoints (sb\<lparr>settings_latest := cfg\<rparr>) cid = calculateDynamicPoints sb cid"
proof (intro conjI impI)
  show "\<exists>v. calculateDynamicPoints sb cid = Returned v"
    by (rule dynamicPoints_returns)
  show "calculateDynamicPoints sb cid = Returned (Num 0)"
    if "challenges_single sb cid = Returned None"
    using that by (rule dynamicPoints_missing)
  show "calculateDynamicPoints sb cid = Returned (Num (points_or_100 (points ch)))"
    if "challenges_single sb cid = Returned (Some ch) \<and> solves_count sb cid = Returned k \<and>
        (teams_count sb = Returned None \<or> teams_count sb = Returned (Some 0))"
    using that dynamicPoints_no_teams [of sb cid ch k] by blast
  show "calculateDynamicPoints sb cid =
        Returned
          (Math_max
             (Math_round
                (num_times
                   (num_times
                      (num_times
                         (num_times (Num (points_or_100 (points ch)))
                            (Num (rarity
                                    (js_divide (real (case k of None \<Rightarrow> 0 | Some j \<Rightarrow> j))
                                       (real n)))))
                         (Num (lit 1.0)))
                      (Num (lit 1.0)))
                   (Num (lit 1.0))))
             (Math_round (num_times (Num (points_or_100 (points ch))) (Num (lit 0.3)))))"
    if h: "challenges_single sb cid = Returned (Some ch) \<and> solves_count sb cid = Returned k \<and>
        teams_count sb = Returned (Some n) \<and> n \<noteq> 0 \<and>
        unlisted difficultyMultiplier (difficulty ch) \<and>
        unlisted categoryMultiplier (category ch) \<and> daily ch = None"
  proof -
    have d: "lookup_or difficultyMultiplier (difficulty ch) (lit 1.0) = Num (lit 1.0)"
      using h by (intro lookup_or_unlisted) simp
    have c: "lookup_or categoryMultiplier (category ch) (lit 1.0) = Num (lit 1.0)"
      using h by (intro lookup_or_unlisted) simp
    have e: "(if daily ch = Some True then lit 1.5 else lit 1.0) = lit 1.0"
      using h by simp
    have "calculateDynamicPoints sb cid =
     Returned
       (Math_max
          (Math_round
             (num_times
                (num_times
                   (num_times
                      (num_times (Num (points_or_100 (points ch)))
                         (Num (rarity (js_divide (real (case k of None \<Rightarrow> 0 | Some j \<Rightarrow> j))
                                         (real n)))))
                      (lookup_or difficultyMultiplier (difficulty ch) (lit 1.0)))
                   (lookup_or categoryMultiplier (category ch) (lit 1.0)))
                (Num (if daily ch = Some True then lit 1.5 else lit 1.0))))
          (Math_round (num_times (Num (points_or_100 (points ch))) (Num (lit 0.3)))))"
      using h by (intro dynamicPoints_value) simp_all
    then show ?thesis
      unfolding d c e .
  qed
  show "calculateDynamicPoints (sb\<lparr>settings_latest := cfg\<rparr>) cid = calculateDynamicPoints sb cid"
    by (simp add: calculateDynamicPoints_def calculateDynamicPoints_try_def
          cong: option.case_cong)
qed

theorem dynamicPoints_fallbacks_witness:
  "challenges_single (connect db_fresh) ''nope'' = Returned None \<and>
   calculateDynamicPoints (connect db_fresh) ''nope'' = Returned (Num 0) \<and>
   teams_count (connect db_no_teams) = Returned (Some 0) \<and>
   calculateDynamicPoints (connect db_no_teams) ''c1'' = Returned (Num 100) \<and>
   unlisted difficultyMultiplier (difficulty ch_plain) \<and>
   unlisted categoryMultiplier (category ch_plain) \<and>
   daily ch_plain = None \<and>
   calculateDynamicPoints (connect db_plain) ''c3'' = Returned (Num 80)"
proof -
  have b: "challenges_single (connect db_no_teams) ''c1'' = Returned (Some ch_hard)"
    "solves_count (connect db_no_teams) ''c1'' = Returned (Some 0)"
    "teams_count (connect db_no_teams) = Returned (Some 0)"
    by (simp_all add: connect_def db_no_teams_def db_fresh_def ch_hard_def solves_of_def)
  have c: "challenges_single (connect db_plain) ''c3'' = Returned (Some ch_plain)"
    "solves_count (connect db_plain) ''c3'' = Returned (Some 0)"
    "teams_count (connect db_plain) = Returned (Some 2)"
    by (simp_all add: connect_def db_plain_def db_fresh_def ch_plain_def solves_of_def)
  have u: "unlisted difficultyMultiplier (difficulty ch_plain)"
    "unlisted categoryMultiplier (category ch_plain)" "daily ch_plain = None"
    by (simp_all add: unlisted_def difficultyMultiplier_def categoryMultiplier_def ch_plain_def
          Object_prototype_def)
  have r1: "calculateDynamicPoints (connect db_fresh) ''nope'' = Returned (Num 0)"
    using dynamicPoints_fallbacks [of "connect db_fresh" "''nope''"] fresh_reads(2) by blast
  have "calculateDynamicPoints (connect db_no_teams) ''c1'' =
          Returned (Num (points_or_100 (points ch_hard)))"
    using dynamicPoints_fallbacks [of "connect db_no_teams" "''c1''" ch_hard "Some 0"] b by blast
  then have r3: "calculateDynamicPoints (connect db_no_teams) ''c1'' = Returned (Num 100)"
    by (simp add: points_or_100_def ch_hard_def)
  have n: "(2::nat) \<noteq> 0" by simp
  have "calculateDynamicPoints (connect db_plain) ''c3'' =
        Returned
          (Math_max
             (Math_round
                (num_times
                   (num_times
                      (num_times
                         (num_times (Num (points_or_100 (points ch_plain)))
                            (Num (rarity
                                    (js_divide (real (case Some (0::nat) of None \<Rightarrow> 0 | Some j \<Rightarrow> j))
                                       (real (2::nat))))))
                         (Num (lit 1.0)))
                      (Num (lit 1.0)))
                   (Num (lit 1.0))))
             (Math_round (num_times (Num (points_or_100 (points ch_plain))) (Num (lit 0.3)))))"
    using dynamicPoints_fallbacks [of "connect db_plain" "''c3''" ch_plain "Some 0" 2] c u n
    by blast
  then have r4: "calculateDynamicPoints (connect db_plain) ''c3'' = Returned (Num 80)"
    by (simp add: ch_plain_def points_or_100_def rarity_def double_eval)
  show ?thesis
    using fresh_reads(2) b(3) u r1 r3 r4 by simp
qed

section \<open>The floor of the total\<close>

text \<open>
  C1, as the claim states it, fails in four ways. When the read of the challenge fails,
  the dynamic points are 0 and the total is the speed bonus alone: 25, under the 30 that
  three tenths of the recorded base value 100 require. When the count of teams throws,
  the dynamic points are the constant 100 whatever the challenge is worth: a total of
  100 for a challenge of 1000 points. When the configured first-blood bonus is negative,
  it is added as it is: a total of -91 for a challenge of 100 points. When the category
  is the name of an inherited property, the total is \<open>NaN\<close>, which is not at least 30.
\<close>

theorem total_floor_counterexample:
  "base_of (calculateTotalScore sb_unreadable ''c1'' ''beta'' 1 (Time 1800000)) = Some 100 \<and>
   total_of (calculateTotalScore sb_unreadable ''c1'' ''beta'' 1 (Time 1800000)) = Some (Num 25) \<and>
   Math_round (num_times (Num 100) (Num (lit 0.3))) = Num 30 \<and>
   base_of (calculateTotalScore sb_counts_throw ''c2'' ''beta'' 1 (Time 360000000)) = Some 1000 \<and>
   total_of (calculateTotalScore sb_counts_throw ''c2'' ''beta'' 1 (Time 360000000))
     = Some (Num 100) \<and>
   Math_round (num_times (Num 1000) (Num (lit 0.3))) = Num 300 \<and>
   base_of (calculateTotalScore (connect db_negative_bonus) ''c1'' ''beta'' 1 (Time 1800000))
     = Some 100 \<and>
   total_of (calculateTotalScore (connect db_negative_bonus) ''c1'' ''beta'' 1 (Time 1800000))
     = Some (Num (- 91)) \<and>
   base_of (calculateTotalScore (connect db_ctor) ''c4'' ''alpha'' 1 (Time 1800000)) = Some 100 \<and>
   total_of (calculateTotalScore (connect db_ctor) ''c4'' ''alpha'' 1 (Time 1800000)) = Some NaN \<and>
   \<not> num_le (Num 30) NaN"
proof -
  have a: "Math_round (num_times (Num 100) (Num (lit 0.3))) = Num 30"
    by (simp add: double_eval)
  have b: "Math_round (num_times (Num 1000) (Num (lit 0.3))) = Num 300"
    by (simp add: double_eval)
  have c: "\<not> num_le (Num 30) NaN"
    by (simp add: num_le_def)
  show ?thesis
    using total_unreadable total_counts_throw total_negative_bonus total_ctor a b c
    by (simp only: simp_thms)
qed

text \<open>
  C1, amended. For every scoring computation in which the challenge is read with a base
  value above zero and with a difficulty and a category that are not names of inherited
  properties, neither count throws, and the configured first-blood bonus is not
  negative, a breakdown is returned whose base value is the challenge's and whose total
  is at least three tenths of that base value, rounded; this for every team size, solve
  count and solve time.
\<close>

theorem total_at_least_three_tenths:
  assumes ch: "challenges_single sb cid = Returned (Some ch)"
    and p: "points ch = Some p" "0 < p"
    and kd: "plain_key (difficulty ch)" and kc: "plain_key (category ch)"
    and t: "teams_count sb \<noteq> Raised" and s: "solves_count sb cid \<noteq> Raised"
    and b: "bonus_not_negative sb"
  shows "\<exists>r. calculateTotalScore sb cid tid teamSize solveTime = Returned r \<and>
            basePoints r = of_int p \<and>
            num_le (Math_round (num_times (Num (basePoints r)) (Num (lit 0.3)))) (totalPoints r)"
proof -
  define A where "A = \<lfloor>js_times (of_int p) (lit 0.7) + 1 / 2\<rfloor>"
  obtain dyn where dyn: "calculateDynamicPoints sb cid = Returned (Num dyn)" "of_int A \<le> dyn"
    using dynamicPoints_lower [OF ch p t s kd kc] unfolding A_def by blast
  obtain fb where fb: "calculateFirstBloodBonus sb cid tid = Returned fb" "0 \<le> fb_points fb"
    using firstBloodBonus_nonneg [OF b] by blast
  obtain sp where sp:
    "calculateSpeedBonus (case created_at ch of None \<Rightarrow> solveTime | Some t \<Rightarrow> t) solveTime
       (string_or (difficulty ch) ''medium'') = Returned sp" "0 \<le> sp"
    using speedBonus_nonneg by blast
  define m where "m = calculateTeamSizeModifier teamSize 4"
  define adj where "adj = \<lfloor>js_times dyn m + 1 / 2\<rfloor>"
  define s1 where "s1 = js_plus (of_int adj) (fb_points fb)"
  define total where "total = js_plus s1 sp"
  have p1: "1 \<le> p" using p(2) by simp
  have c7: "0 \<le> lit 0.7" by (simp add: lit_eval)
  have m7: "lit 0.7 \<le> m" unfolding m_def by (rule teamSizeModifier_ge)
  have m0: "0 \<le> m" using m7 c7 by linarith
  have q0: "0 \<le> js_times (of_int p) (lit 0.7)"
    using p(2) c7 by (intro js_times_nonneg) simp_all
  have A0: "0 \<le> A" unfolding A_def using q0 by simp
  have A0': "0 \<le> real_of_int A" using A0 by simp
  have dyn0: "0 \<le> dyn" using dyn(2) A0' by linarith
  have "js_times (of_int A) (lit 0.7) \<le> js_times dyn (lit 0.7)"
    using A0' dyn(2) c7 by (rule js_times_mono)
  also have "\<dots> \<le> js_times dyn m"
    using dyn0 c7 m7 by (rule js_times_mono_right)
  finally have "\<lfloor>js_times (of_int A) (lit 0.7) + 1 / 2\<rfloor> \<le> adj"
    unfolding adj_def by (rule floor_half_mono)
  then have low: "\<lfloor>js_times (of_int p) (lit 0.3) + 1 / 2\<rfloor> \<le> adj"
    using three_tenths_after_two_cuts [OF p1] unfolding A_def by linarith
  have x0: "0 \<le> js_times dyn m" using dyn0 m0 by (rule js_times_nonneg)
  have adj0: "0 \<le> real_of_int adj" unfolding adj_def using x0 by simp
  have adjd: "to_double (of_int adj) = of_int adj"
    unfolding adj_def using x0 js_times_double [OF dyn0 m0] by (rule to_double_round)
  have 1: "of_int adj \<le> s1"
    unfolding s1_def using adj0 adjd fb(2) by (rule js_plus_grows)
  have s10: "0 \<le> s1" using 1 adj0 by linarith
  have s1d: "to_double s1 = s1"
    unfolding s1_def using adj0 fb(2) by (rule js_plus_double)
  have 2: "s1 \<le> total"
    unfolding total_def using s10 s1d sp(2) by (rule js_plus_grows)
  have bound: "real_of_int \<lfloor>js_times (of_int p) (lit 0.3) + 1 / 2\<rfloor> \<le> total"
    using low 1 2 by linarith
  have "\<exists>sc. calculateTotalScore sb cid tid teamSize solveTime = Returned sc \<and>
      basePoints sc = of_int p \<and> totalPoints sc = Num total"
    using ch p dyn(1) fb(1) sp(1)
    by (simp add: calculateTotalScore_def calculateTotalScore_try_def try_catch_def await_def
          Let_def points_or_100_def m_def adj_def s1_def total_def num_times_def num_plus_def
          Math_round_def)
  then show ?thesis
    using bound by (auto simp: num_le_def Math_round_def num_times_def)
qed

theorem total_at_least_three_tenths_witness:
  "challenges_single (connect db_solved) ''c1'' = Returned (Some ch_hard) \<and>
   points ch_hard = Some 100 \<and>
   plain_key (difficulty ch_hard) \<and> plain_key (category ch_hard) \<and>
   teams_count (connect db_solved) \<noteq> Raised \<and>
   solves_count (connect db_solved) ''c1'' \<noteq> Raised \<and>
   bonus_not_negative (connect db_solved) \<and>
   (\<exists>r. calculateTotalScore (connect db_solved) ''c1'' ''beta'' 9 (Time 360000000) = Returned r \<and>
        basePoints r = 100 \<and>
        num_le (Math_round (num_times (Num (basePoints r)) (Num (lit 0.3)))) (totalPoints r))"
proof -
  have ch: "challenges_single (connect db_solved) ''c1'' = Returned (Some ch_hard)"
    by (simp add: connect_def db_solved_def db_fresh_def ch_hard_def)
  have p: "points ch_hard = Some 100" "(0::int) < 100"
    by (simp_all add: ch_hard_def)
  have k: "plain_key (difficulty ch_hard)" "plain_key (category ch_hard)"
    by (simp_all add: plain_key_def ch_hard_def Object_prototype_def)
  have t: "teams_count (connect db_solved) \<noteq> Raised"
    by (simp add: connect_def)
  have s: "solves_count (connect db_solved) ''c1'' \<noteq> Raised"
    by (simp add: connect_def)
  have b: "bonus_not_negative (connect db_solved)"
    by (simp add: bonus_not_negative_def connect_def db_solved_def db_fresh_def)
  show ?thesis
    using ch p(1) k t s b
      total_at_least_three_tenths [OF ch p k t s b, of "''beta''" 9 "Time 360000000"]
    by simp
qed

section \<open>What the flag handler awards\<close>

lemma POST_accepted:
  assumes "accepted req d userId profile challengeId"
  shows "POST req d = Returned (award d userId profile challengeId)"
  using assms
  unfolding accepted_def POST_def POST_try_def try_catch_def
  by (auto split: option.splits prod.splits)

lemma award_solves:
  "solves (snd (award d userId profile challengeId)) =
     insert_solve
       \<lparr>user_id = userId, team_name = teamName_of userId profile,
        challenge_id = challengeId, solve_points = challenge_points d challengeId\<rparr>
       (solves d)"
  by (simp add: award_def Let_def challenge_points_def)

lemma award_response:
  "fst (award d userId profile challengeId) =
     (let pts = challenge_points d challengeId;
          awarded = (if existingTeamSolve d (teamName_of userId profile) challengeId \<noteq> [] then 0
                     else pts)
      in Correct pts awarded
           (if awarded > 0 then ''Correct! Points awarded to your team.''
            else ''Correct! You already solved this challenge.''))"
  by (simp add: award_def Let_def challenge_points_def existingTeamSolve_def)

lemma accepted_u1_fresh: "accepted req_u1 db_fresh ''u1'' profile_u1 ''c1''"
  by (simp add: accepted_def req_u1_def db_fresh_def profile_u1_def bearer_token_def)

lemma accepted_u2_solved: "accepted req_u2 db_solved ''u2'' profile_u2 ''c1''"
  by (simp add: accepted_def req_u2_def req_u1_def db_solved_def db_fresh_def profile_u2_def
        bearer_token_def)

text \<open>
  C8, as the claim states it, fails: the handler never calls the scoring engine. For the
  first solve of the challenge of 100 points it awards and stores 100, where
  \<open>calculateTotalScore\<close> gives 517 for the team of two that submits (and 459 for a team
  of one).
\<close>

theorem awarded_is_stored_points_counterexample:
  "POST req_u1 db_fresh =
     Returned (Correct 100 100 ''Correct! Points awarded to your team.'',
               db_fresh\<lparr>solves := [solve_u1]\<rparr>) \<and>
   total_of (calculateTotalScore (connect db_fresh) ''c1'' ''alpha'' 2 (Time 1800000))
     = Some (Num 517) \<and>
   total_of (calculateTotalScore (connect db_fresh) ''c1'' ''alpha'' 1 (Time 1800000))
     = Some (Num 459)"
proof (intro conjI)
  show "POST req_u1 db_fresh =
     Returned (Correct 100 100 ''Correct! Points awarded to your team.'',
               db_fresh\<lparr>solves := [solve_u1]\<rparr>)"
    unfolding POST_accepted [OF accepted_u1_fresh]
    by (simp add: award_def Let_def challenge_points_def existingTeamSolve_def insert_solve_def
          teamName_of_def teamName0_of_def profile_u1_def db_fresh_def ch_hard_def solve_u1_def)
  show "total_of (calculateTotalScore (connect db_fresh) ''c1'' ''alpha'' 2 (Time 1800000))
     = Some (Num 517)"
    by (rule total_fresh_two)
  show "total_of (calculateTotalScore (connect db_fresh) ''c1'' ''alpha'' 1 (Time 1800000))
     = Some (Num 459)"
    by (rule total_fresh_one)
qed

text \<open>
  C8, amended. For every accepted flag submission (every guard of the handler passed, the
  flag is the stored one, and the team has no solve of the challenge yet), the points
  awarded in the response and the points of the solve row offered to the store both equal
  the stored point value of the challenge (0 when that is missing); the scoring engine
  takes no part.
\<close>

theorem awarded_is_stored_points:
  assumes acc: "accepted req d userId profile challengeId"
    and new: "existingTeamSolve d (teamName_of userId profile) challengeId = []"
  shows "\<exists>msg d'. POST req d =
            Returned (Correct (challenge_points d challengeId)
                        (challenge_points d challengeId) msg, d') \<and>
          solves d' =
            insert_solve
              \<lparr>user_id = userId, team_name = teamName_of userId profile,
               challenge_id = challengeId, solve_points = challenge_points d challengeId\<rparr>
              (solves d)"
proof -
  obtain resp d' where a: "award d userId profile challengeId = (resp, d')"
    by (cases "award d userId profile challengeId")
  have "resp = fst (award d userId profile challengeId)" using a by simp
  then have r: "\<exists>msg. resp = Correct (challenge_points d challengeId)
                       (challenge_points d challengeId) msg"
    unfolding award_response using new by (simp add: Let_def)
  have "d' = snd (award d userId profile challengeId)" using a by simp
  then have s: "solves d' = insert_solve
              \<lparr>user_id = userId, team_name = teamName_of userId profile,
               challenge_id = challengeId, solve_points = challenge_points d challengeId\<rparr>
              (solves d)"
    by (simp only: award_solves)
  show ?thesis
    using POST_accepted [OF acc] a r s by auto
qed

theorem awarded_is_stored_points_witness:
  "accepted req_u1 db_fresh ''u1'' profile_u1 ''c1'' \<and>
   existingTeamSolve db_fresh (teamName_of ''u1'' profile_u1) ''c1'' = [] \<and>
   (\<exists>msg d'. POST req_u1 db_fresh = Returned (Correct 100 100 msg, d') \<and> solves d' = [solve_u1])"
proof -
  have new: "existingTeamSolve db_fresh (teamName_of ''u1'' profile_u1) ''c1'' = []"
    by (simp add: existingTeamSolve_def db_fresh_def)
  have pts: "challenge_points db_fresh ''c1'' = 100"
    by (simp add: challenge_points_def db_fresh_def ch_hard_def)
  have ins: "insert_solve
              \<lparr>user_id = ''u1'', team_name = teamName_of ''u1'' profile_u1,
               challenge_id = ''c1'', solve_points = 100\<rparr>
              (solves db_fresh) = [solve_u1]"
    by (simp add: insert_solve_def db_fresh_def solve_u1_def teamName_of_def teamName0_of_def
          profile_u1_def)
  show ?thesis
    using accepted_u1_fresh new awarded_is_stored_points [OF accepted_u1_fresh new]
    unfolding pts ins by blast
qed

lemma existing_conflicts:
  assumes "existingTeamSolve d teamName challengeId \<noteq> []"
  shows "filter (\<lambda>s. team_name s = teamName \<and> challenge_id s = challengeId) (solves d) \<noteq> []"
  using assms by (auto simp: existingTeamSolve_def)

text \<open>
  C9. When a team submits a correct flag for a challenge that team has already solved
  (every guard of the handler passed, the flag is the stored one, and the handler's
  look-up finds a solve of the challenge by the team), the handler returns, without an
  error, a response that acknowledges the flag and reports 0 points awarded. The row it
  then sends is one the store refuses, its team and challenge being recorded already, so
  no solve record is created.
\<close>

theorem resubmission_awards_nothing:
  assumes acc: "accepted req d userId profile challengeId"
    and old: "existingTeamSolve d (teamName_of userId profile) challengeId \<noteq> []"
  shows "\<exists>d'. POST req d =
            Returned (Correct (challenge_points d challengeId) 0
                        ''Correct! You already solved this challenge.'', d') \<and>
          solves d' = solves d"
proof -
  obtain resp d' where a: "award d userId profile challengeId = (resp, d')"
    by (cases "award d userId profile challengeId")
  have "resp = fst (award d userId profile challengeId)" using a by simp
  then have r: "resp = Correct (challenge_points d challengeId) 0
                       ''Correct! You already solved this challenge.''"
    unfolding award_response using old by (simp add: Let_def)
  have "d' = snd (award d userId profile challengeId)" using a by simp
  then have s: "solves d' = insert_solve
              \<lparr>user_id = userId, team_name = teamName_of userId profile,
               challenge_id = challengeId, solve_points = challenge_points d challengeId\<rparr>
              (solves d)"
    by (simp only: award_solves)
  have k: "solves d' = solves d"
    unfolding s using existing_conflicts [OF old] by (simp add: insert_solve_def)
  show ?thesis
    using POST_accepted [OF acc] a r k by auto
qed

theorem resubmission_awards_nothing_witness:
  "accepted req_u2 db_solved ''u2'' profile_u2 ''c1'' \<and>
   existingTeamSolve db_solved (teamName_of ''u2'' profile_u2) ''c1'' \<noteq> [] \<and>
   (\<exists>d'. POST req_u2 db_solved =
            Returned (Correct 100 0 ''Correct! You already solved this challenge.'', d') \<and>
          solves d' = [solve_u1])"
proof -
  have old: "existingTeamSolve db_solved (teamName_of ''u2'' profile_u2) ''c1'' \<noteq> []"
    by (simp add: existingTeamSolve_def db_solved_def db_fresh_def solve_u1_def teamName_of_def
          teamName0_of_def profile_u2_def)
  have pts: "challenge_points db_solved ''c1'' = 100"
    by (simp add: challenge_points_def db_solved_def db_fresh_def ch_hard_def)
  have sol: "solves db_solved = [solve_u1]"
    by (simp add: db_solved_def)
  show ?thesis
    using accepted_u2_solved old resubmission_awards_nothing [OF accepted_u2_solved old]
    unfolding pts sol by blast
qed

end
